theory Spec2Isabelle
  imports Complex_Main
begin

section \<open>Patch-wise flow estimation: the solver \<open>PatchEkltDependent\<close>\<close>

text \<open>
  The development follows \<open>src/solver/patch_eklt_dependent.py\<close>. Tensors of doubles are
  lists of reals (a matrix is the list of its rows); a scalar loss, whose only use in the
  optimisation loop is the comparison \<open>loss < min_loss\<close>, keeps the non-finite values of a
  double. Collaborators of the solver that live in other modules (the event cropper, the
  objective, the optimiser, the interpolation, the warp, the Sobel filter) are parameters
  of the functions that call them.
\<close>

subsection \<open>Data\<close>

datatype error = AssertionError | RuntimeError | IndexError | ValueError

text \<open>A patch of the grid: its centre and its bounding box, in pixels.\<close>

record patch =
  patch_x :: int
  patch_y :: int
  patch_x_min :: int
  patch_x_max :: int
  patch_y_min :: int
  patch_y_max :: int

text \<open>
  The attributes of \<open>self\<close> the solver reads or writes (the two gradient images are
  \<open>self._gradient_x_torch\<close> and \<open>self._gradient_y_torch\<close>). \<open>optimize_warp\<close> and
  \<open>no_polarity\<close> are entries of \<open>self._gml_config\<close>, \<open>n_iter\<close> is the entry of
  \<open>self._opt_config\<close>.
\<close>

record solver =
  patches :: "patch list"
  patch_image_size :: "nat \<times> nat"
  gradient_x_torch :: "real list list"
  gradient_y_torch :: "real list list"
  crop_xmin :: int
  crop_xmax :: int
  crop_ymin :: int
  crop_ymax :: int
  do_event_thresholding :: bool
  event_thres :: real
  is_poisson_model :: bool
  is_angle_model :: bool
  optimize_warp :: bool
  no_polarity :: bool
  n_iter :: int
  n_parameter_dim :: nat
  estimate_indices :: "nat list"
  iter_cnt :: nat

text \<open>
  Modelled from the spec: the patch grid is built by the base class \<open>PatchEklt\<close>, which is
  not part of the sources at hand. A patch is identified by its grid index
  \<open>i \<in> [0, n_patch)\<close>, so \<open>n_patch\<close> is the number of patches of the grid.
\<close>

definition n_patch :: "solver \<Rightarrow> nat" where
  "n_patch s = length (patches s)"

subsection \<open>Selection of the active patches (\<open>estimate\<close>, lines 63--80)\<close>

text \<open>
  One turn of the loop \<open>for i in range(self.n_patch)\<close>: the two \<open>continue\<close> tests on the
  centre of the patch, the crop of the events to the bounding box of the patch, and the
  append. \<open>crop_event\<close> is \<open>utils.crop_event\<close>.
\<close>

definition select_step ::
  "('e list \<Rightarrow> int \<Rightarrow> int \<Rightarrow> int \<Rightarrow> int \<Rightarrow> 'e list) \<Rightarrow> solver \<Rightarrow> 'e list \<Rightarrow>
     nat list \<Rightarrow> nat \<Rightarrow> nat list" where
  "select_step crop_event s events acc i =
     (let p = patches s ! i in
      if patch_x p < crop_xmin s \<or> crop_xmax s < patch_x p then acc
      else if patch_y p < crop_ymin s \<or> crop_ymax s < patch_y p then acc
      else
        let cropped = crop_event events (patch_x_min p) (patch_x_max p)
                        (patch_y_min p) (patch_y_max p)
        in if \<not> do_event_thresholding s \<or> event_thres s < real (length cropped)
           then acc @ [i] else acc)"

definition select_indices ::
  "('e list \<Rightarrow> int \<Rightarrow> int \<Rightarrow> int \<Rightarrow> int \<Rightarrow> 'e list) \<Rightarrow> solver \<Rightarrow> 'e list \<Rightarrow> nat list" where
  "select_indices crop_event s events =
     foldl (select_step crop_event s events) [] [0..<n_patch s]"

text \<open>
  The two conditions of the selection in the words of the specification (section 4.1), for
  the comparison with the loop: the centre of the patch lies within the bounds of the
  region of interest, and thresholding is off or the cropped events exceed the threshold.
\<close>

definition center_in_roi :: "solver \<Rightarrow> patch \<Rightarrow> bool" where
  "center_in_roi s p \<longleftrightarrow>
     crop_xmin s \<le> patch_x p \<and> patch_x p \<le> crop_xmax s \<and>
     crop_ymin s \<le> patch_y p \<and> patch_y p \<le> crop_ymax s"

definition cropped_count ::
  "('e list \<Rightarrow> int \<Rightarrow> int \<Rightarrow> int \<Rightarrow> int \<Rightarrow> 'e list) \<Rightarrow> 'e list \<Rightarrow> patch \<Rightarrow> nat" where
  "cropped_count crop_event events p =
     length (crop_event events (patch_x_min p) (patch_x_max p) (patch_y_min p) (patch_y_max p))"

definition enough_events ::
  "('e list \<Rightarrow> int \<Rightarrow> int \<Rightarrow> int \<Rightarrow> int \<Rightarrow> 'e list) \<Rightarrow> solver \<Rightarrow> 'e list \<Rightarrow> patch \<Rightarrow> bool" where
  "enough_events crop_event s events p \<longleftrightarrow>
     (if do_event_thresholding s then event_thres s < real (cropped_count crop_event events p)
      else True)"

text \<open>
  Sample data for the closed instances below: events are pixel positions, the cropper keeps
  the events inside the closed box, and a grid of three patches in a row.
\<close>

definition box_crop :: "(int \<times> int) list \<Rightarrow> int \<Rightarrow> int \<Rightarrow> int \<Rightarrow> int \<Rightarrow> (int \<times> int) list" where
  "box_crop events xa xb ya yb =
     filter (\<lambda>(ex, ey). xa \<le> ex \<and> ex \<le> xb \<and> ya \<le> ey \<and> ey \<le> yb) events"

definition mk_patch :: "int \<Rightarrow> int \<Rightarrow> patch" where
  "mk_patch cx cy =
     \<lparr>patch_x = cx, patch_y = cy, patch_x_min = cx - 2, patch_x_max = cx + 2,
      patch_y_min = cy - 2, patch_y_max = cy + 2\<rparr>"

definition demo_solver :: solver where
  "demo_solver =
     \<lparr>patches = [mk_patch 2 2, mk_patch 2 7, mk_patch 2 12],
      patch_image_size = (1, 3),
      gradient_x_torch = [[1, 2], [3, 4]], gradient_y_torch = [[0, 1], [1, 0]],
      crop_xmin = 2, crop_xmax = 10, crop_ymin = 2, crop_ymax = 10,
      do_event_thresholding = True, event_thres = 10,
      is_poisson_model = False, is_angle_model = False,
      optimize_warp = False, no_polarity = False,
      n_iter = 3, n_parameter_dim = 2, estimate_indices = [], iter_cnt = 0\<rparr>"

text \<open>
  Nine events in the box of patch 0 and eleven in the box of patch 1. The centres of
  patches 0 and 1 lie on the bound \<open>crop_xmin\<close>, the centre of patch 2 lies outside.
\<close>

definition demo_events :: "(int \<times> int) list" where
  "demo_events = replicate 9 (2, 2) @ replicate 11 (2, 7)"

text \<open>Four patches with their centres on the corners of the region, no thresholding.\<close>

definition corner_solver :: solver where
  "corner_solver =
     demo_solver\<lparr>patches := [mk_patch 2 2, mk_patch 10 10, mk_patch 2 10, mk_patch 10 2],
       patch_image_size := (2, 2), do_event_thresholding := False\<rparr>"

subsection \<open>Errors and tensor primitives\<close>

text \<open>An exception ends the computation: the rest of the function is skipped.\<close>

definition bind_err :: "error + 'a \<Rightarrow> ('a \<Rightarrow> error + 'b) \<Rightarrow> error + 'b" where
  "bind_err m f = (case m of Inl e \<Rightarrow> Inl e | Inr v \<Rightarrow> f v)"

definition assert_that :: "bool \<Rightarrow> error + unit" where
  "assert_that b = (if b then Inr () else Inl AssertionError)"

text \<open>
  \<open>parameters.reshape(-1, d).T\<close> on a one-dimensional tensor: the vector is cut into
  blocks of \<open>d\<close> entries, and row \<open>j\<close> of the transpose collects entry \<open>j\<close> of every block.
  The reshape raises when \<open>d\<close> is zero or does not divide the length.
\<close>

definition reshape_T :: "nat \<Rightarrow> real list \<Rightarrow> error + real list list" where
  "reshape_T d ps =
     (if d = 0 \<or> length ps mod d \<noteq> 0 then Inl RuntimeError
      else Inr (map (\<lambda>j. map (\<lambda>k. ps ! (k * d + j)) [0..<length ps div d]) [0..<d]))"

text \<open>\<open>torch.zeros((c, n))\<close>.\<close>

definition zeros :: "nat \<Rightarrow> nat \<Rightarrow> real list list" where
  "zeros c n = replicate c (replicate n 0)"

text \<open>Broadcasting a one-dimensional value to \<open>k\<close> entries: same length, or length one.\<close>

definition broadcast_to :: "nat \<Rightarrow> real list \<Rightarrow> real list option" where
  "broadcast_to k v =
     (if length v = k then Some v
      else if length v = 1 then Some (replicate k (hd v))
      else None)"

text \<open>
  \<open>row[idx] += v\<close> with an index array: the entries at \<open>idx\<close> are read from the tensor
  as it is before the statement, \<open>v\<close> is added, and the sums are written back at \<open>idx\<close>.
  An index out of range raises IndexError, a value of another length RuntimeError.
\<close>

definition index_add :: "real list \<Rightarrow> nat list \<Rightarrow> real list \<Rightarrow> error + real list" where
  "index_add row idx v =
     (if \<exists>i \<in> set idx. length row \<le> i then Inl IndexError
      else case broadcast_to (length idx) v of
             None \<Rightarrow> Inl RuntimeError
           | Some w \<Rightarrow> Inr (fold (\<lambda>(i, a) r. r[i := row ! i + a]) (zip idx w) row))"

text \<open>\<open>row[idx] = v\<close>, the plain assignment.\<close>

definition index_put :: "real list \<Rightarrow> nat list \<Rightarrow> real list \<Rightarrow> error + real list" where
  "index_put row idx v =
     (if \<exists>i \<in> set idx. length row \<le> i then Inl IndexError
      else case broadcast_to (length idx) v of
             None \<Rightarrow> Inl RuntimeError
           | Some w \<Rightarrow> Inr (fold (\<lambda>(i, a) r. r[i := a]) (zip idx w) row))"

text \<open>\<open>t[:, idx] = v\<close>: the assignment in every row of a matrix.\<close>

fun index_put_rows :: "real list list \<Rightarrow> nat list \<Rightarrow> real list \<Rightarrow> error + real list list" where
  "index_put_rows [] idx v = Inr []"
| "index_put_rows (row # rows) idx v =
     bind_err (index_put row idx v) (\<lambda>r.
     bind_err (index_put_rows rows idx v) (\<lambda>rs. Inr (r # rs)))"

text \<open>
  \<open>t.reshape((c,) + self.patch_image_size)\<close>. A tensor over the patch grid is kept as the
  list of its channels, each channel flattened in row-major order, so that the patch of
  grid index \<open>i\<close> is entry \<open>i\<close> of a channel (cell \<open>(i div w, i mod w)\<close> of the grid). The
  reshape raises unless the tensor has \<open>c * h * w\<close> entries; it regroups them in order.
\<close>

definition reshape_grid :: "nat \<Rightarrow> nat \<times> nat \<Rightarrow> real list list \<Rightarrow> error + real list list" where
  "reshape_grid c hw t =
     (let flat = concat t; m = fst hw * snd hw
      in if length flat = c * m
         then Inr (map (\<lambda>k. take m (drop (k * m) flat)) [0..<c])
         else Inl RuntimeError)"

subsection \<open>The collaborators\<close>

text \<open>The region of interest, the dictionary \<open>roi\<close> of \<open>estimate\<close>.\<close>

record roi =
  xmin :: int
  xmax :: int
  ymin :: int
  ymax :: int

text \<open>
  The scalar loss: a double, with its non-finite values. Finite doubles are reals, and
  their order is the order of the reals; a comparison with NaN is false.
\<close>

datatype scalar = NaN | NegInf | Fin real | PosInf

fun scalar_less :: "scalar \<Rightarrow> scalar \<Rightarrow> bool" where
  "scalar_less NaN b = False"
| "scalar_less a NaN = False"
| "scalar_less PosInf b = False"
| "scalar_less a PosInf = True"
| "scalar_less a NegInf = False"
| "scalar_less NegInf (Fin b) = True"
| "scalar_less (Fin a) (Fin b) = (a < b)"

text \<open>
  What \<open>estimate\<close> and the decoders call in other modules. \<open>'e\<close> is the type of an event,
  \<open>'o\<close> the internal state of the optimiser and its learning-rate scheduler.
  \<^item> \<open>crop_event\<close> is \<open>utils.crop_event\<close>; \<open>initialize_velocity\<close> the value of
    \<open>self._initialize_velocity()\<close>; \<open>make_measured_increment\<close> is
    \<open>self._make_measured_increment\<close>.
  \<^item> \<open>objective_scipy\<close> is \<open>self._objective_scipy\<close>: it may raise, and it may depend on
    the state of \<open>self\<close> and on the number of the iteration (the cost function keeps a
    history).
  \<^item> \<open>backward\<close> is \<open>loss.backward()\<close>: the gradient with respect to \<open>x0\<close>, or \<open>None\<close>
    when it raises.
  \<^item> \<open>new_optimizer lr lr_step lr_decay\<close> builds the optimiser named by
    \<open>self._opt_method\<close> and its \<open>StepLR\<close> scheduler; \<open>optimizer_step\<close> gives the new state
    and the new contents of the parameter tensor, which \<open>optimizer.step()\<close> writes in place;
    \<open>scheduler_step\<close> is \<open>scheduler.step()\<close>.
  \<^item> \<open>SobelTorch\<close> is the filter \<open>utils.SobelTorch(...)\<close> of \<open>poisson_to_flow\<close>, from the
    channels of a grid to its output channels; the interpolation and the forward warp are
    \<open>self.interpolate_dense_..._from_patch_tensor\<close> and
    \<open>utils.frame_utils.warp_image_forward\<close>. A dense field is the list of its channels,
    each an image (the list of its rows).
\<close>

record ('e, 'o) collaborators =
  crop_event :: "'e list \<Rightarrow> int \<Rightarrow> int \<Rightarrow> int \<Rightarrow> int \<Rightarrow> 'e list"
  initialize_velocity :: "real list"
  make_measured_increment :: "'e list \<Rightarrow> roi \<Rightarrow> real list list \<times> real list list option"
  objective_scipy ::
    "solver \<Rightarrow> nat \<Rightarrow> real list \<Rightarrow> real list list \<Rightarrow> roi \<Rightarrow> real list list option \<Rightarrow> error + scalar"
  backward :: "nat \<Rightarrow> real list \<Rightarrow> real list option"
  new_optimizer :: "real \<Rightarrow> int \<Rightarrow> real \<Rightarrow> 'o"
  optimizer_step :: "'o \<Rightarrow> real list \<Rightarrow> real list \<Rightarrow> 'o \<times> real list"
  scheduler_step :: "'o \<Rightarrow> 'o"
  SobelTorch :: "nat \<times> nat \<Rightarrow> real list list \<Rightarrow> real list list"
  interpolate_dense_flow_from_patch_tensor :: "nat \<times> nat \<Rightarrow> real list list \<Rightarrow> real list list list"
  interpolate_dense_poisson_from_patch_tensor :: "nat \<times> nat \<Rightarrow> real list list \<Rightarrow> real list list list"
  warp_image_forward :: "real list list \<Rightarrow> real list list list \<Rightarrow> real list list"

subsection \<open>Decoding the parameter vector\<close>

text \<open>
  \<open>poisson_to_flow\<close> on a torch tensor of three dimensions: a batch dimension is added, the
  Sobel filter is applied, the result is divided by 8 and the batch dimension dropped.
\<close>

definition poisson_to_flow ::
  "('e, 'o) collaborators \<Rightarrow> solver \<Rightarrow> real list list \<Rightarrow> real list list" where
  "poisson_to_flow env s poisson =
     map (map (\<lambda>v. v / 8)) (SobelTorch env (patch_image_size s) poisson)"

text \<open>
  \<open>_get_patch_flow\<close> (lines 188--216). In the Poisson model the scattered intensity goes
  through \<open>poisson_to_flow\<close>; otherwise the velocity is scattered into a zero tensor of
  \<open>n_patch\<close> columns.
\<close>

definition get_patch_flow ::
  "('e, 'o) collaborators \<Rightarrow> solver \<Rightarrow> real list \<Rightarrow> error + real list list" where
  "get_patch_flow env s parameters =
     bind_err (reshape_T (n_parameter_dim s) parameters) (\<lambda>reshaped_params.
       if is_poisson_model s then
         bind_err (assert_that (n_parameter_dim s \<in> {1, 3})) (\<lambda>_.
         bind_err (index_put_rows (zeros (n_parameter_dim s) (n_patch s)) (estimate_indices s)
                     (reshaped_params ! 0)) (\<lambda>orig_patch_p.
         bind_err (reshape_grid (n_parameter_dim s) (patch_image_size s) orig_patch_p) (\<lambda>grid.
         Inr (poisson_to_flow env s grid))))
       else
         bind_err
           (if is_angle_model s then
              bind_err (assert_that (n_parameter_dim s \<in> {1, 3})) (\<lambda>_.
              Inr (map sin (reshaped_params ! 0), map cos (reshaped_params ! 0)))
            else
              bind_err (assert_that (n_parameter_dim s \<in> {2, 4})) (\<lambda>_.
              Inr (reshaped_params ! 0, reshaped_params ! 1)))
           (\<lambda>(v_x, v_y).
              bind_err (index_add (replicate (n_patch s) 0) (estimate_indices s) v_x) (\<lambda>row0.
              bind_err (index_add (replicate (n_patch s) 0) (estimate_indices s) v_y) (\<lambda>row1.
              reshape_grid 2 (patch_image_size s) [row0, row1]))))"

text \<open>\<open>_get_patch_translation\<close> (lines 223--240).\<close>

definition get_patch_translation :: "solver \<Rightarrow> real list \<Rightarrow> error + real list list" where
  "get_patch_translation s parameters =
     bind_err (reshape_T (n_parameter_dim s) parameters) (\<lambda>reshaped_params.
     bind_err
       (if is_poisson_model s then
          bind_err (assert_that (n_parameter_dim s = 3)) (\<lambda>_.
          Inr (reshaped_params ! 1, reshaped_params ! 2))
        else if is_angle_model s then
          bind_err (assert_that (n_parameter_dim s = 3)) (\<lambda>_.
          Inr (reshaped_params ! 1, reshaped_params ! 2))
        else
          bind_err (assert_that (n_parameter_dim s = 4)) (\<lambda>_.
          Inr (reshaped_params ! 2, reshaped_params ! 3)))
       (\<lambda>(v_x, v_y).
          bind_err (index_add (replicate (n_patch s) 0) (estimate_indices s) v_x) (\<lambda>row0.
          bind_err (index_add (replicate (n_patch s) 0) (estimate_indices s) v_y) (\<lambda>row1.
          reshape_grid 2 (patch_image_size s) [row0, row1]))))"

text \<open>\<open>_get_patch_poisson\<close> (lines 247--257).\<close>

definition get_patch_poisson :: "solver \<Rightarrow> real list \<Rightarrow> error + real list list" where
  "get_patch_poisson s parameters =
     bind_err (reshape_T (n_parameter_dim s) parameters) (\<lambda>reshaped_params.
     bind_err (assert_that (is_poisson_model s)) (\<lambda>_.
     bind_err (assert_that (n_parameter_dim s \<in> {1, 3})) (\<lambda>_.
     bind_err (index_add (replicate (n_patch s) 0) (estimate_indices s) (reshaped_params ! 0))
       (\<lambda>row0. reshape_grid 1 (patch_image_size s) [row0]))))"

text \<open>The three \<open>_extrapolate_dense_..._from_estimates\<close> (lines 178--186, 218--221, 242--245).\<close>

definition extrapolate_dense_flow_from_estimates ::
  "('e, 'o) collaborators \<Rightarrow> solver \<Rightarrow> real list \<Rightarrow> error + real list list list" where
  "extrapolate_dense_flow_from_estimates env s parameters =
     bind_err (get_patch_flow env s parameters) (\<lambda>patch_flow.
     bind_err (reshape_grid 2 (patch_image_size s) patch_flow) (\<lambda>t.
     Inr (interpolate_dense_flow_from_patch_tensor env (patch_image_size s) t)))"

definition extrapolate_dense_translation_from_estimates ::
  "('e, 'o) collaborators \<Rightarrow> solver \<Rightarrow> real list \<Rightarrow> error + real list list list" where
  "extrapolate_dense_translation_from_estimates env s parameters =
     bind_err (get_patch_translation s parameters) (\<lambda>patch_translation.
     Inr (interpolate_dense_flow_from_patch_tensor env (patch_image_size s) patch_translation))"

definition extrapolate_dense_poisson_from_estimates ::
  "('e, 'o) collaborators \<Rightarrow> solver \<Rightarrow> real list \<Rightarrow> error + real list list list" where
  "extrapolate_dense_poisson_from_estimates env s parameters =
     bind_err (get_patch_poisson s parameters) (\<lambda>patch_poisson.
     Inr (interpolate_dense_poisson_from_patch_tensor env (patch_image_size s) patch_poisson))"

text \<open>
  A device for the proofs: the scatter of a list of values at a list of indices, into a
  list of \<open>n\<close> empty cells. A cell that no index names stays empty.
\<close>

definition scatter_opt :: "nat \<Rightarrow> nat list \<Rightarrow> 'a list \<Rightarrow> 'a option list" where
  "scatter_opt n idx vs = fold (\<lambda>(j, a) r. r[j := Some a]) (zip idx vs) (replicate n None)"

subsection \<open>The forward prediction (\<open>_make_prediction_torch\<close>, lines 283--307)\<close>

text \<open>
  A Python slice \<open>xs[a:b]\<close>: a negative bound counts from the end, and both bounds are
  clamped to the length.
\<close>

definition slice_bound :: "nat \<Rightarrow> int \<Rightarrow> nat" where
  "slice_bound n i = (if i < 0 then nat (max 0 (int n + i)) else min n (nat i))"

definition py_slice :: "int \<Rightarrow> int \<Rightarrow> 'a list \<Rightarrow> 'a list" where
  "py_slice a b xs =
     (let lo = slice_bound (length xs) a; hi = slice_bound (length xs) b
      in take (hi - lo) (drop lo xs))"

text \<open>\<open>img[x_min:x_max, y_min:y_max]\<close>.\<close>

definition crop2 :: "int \<Rightarrow> int \<Rightarrow> int \<Rightarrow> int \<Rightarrow> real list list \<Rightarrow> real list list" where
  "crop2 x_min x_max y_min y_max img = map (py_slice y_min y_max) (py_slice x_min x_max img)"

text \<open>\<open>t[k]\<close> on the first dimension.\<close>

definition channel :: "'a list \<Rightarrow> nat \<Rightarrow> error + 'a" where
  "channel t k = (if k < length t then Inr (t ! k) else Inl IndexError)"

text \<open>
  An operation on two images, entry by entry. The operands of the prediction are crops by
  one region of interest, so they are taken to be of one shape; operands of two shapes
  raise (the broadcasting of a dimension of size one is not part of the model).
\<close>

definition elementwise ::
  "(real \<Rightarrow> real \<Rightarrow> real) \<Rightarrow> real list list \<Rightarrow> real list list \<Rightarrow> error + real list list" where
  "elementwise f a b =
     (if map length a = map length b then Inr (map2 (map2 f) a b) else Inl RuntimeError)"

text \<open>\<open>torch.linalg.norm\<close> of a matrix: the root of the sum of the squares of its entries.\<close>

definition linalg_norm :: "real list list \<Rightarrow> real" where
  "linalg_norm t = sqrt (sum_list (map (\<lambda>v. v * v) (concat t)))"

text \<open>
  Lines 286--305: the crops, the dense flow, the warp of the gradients by the translation
  when \<open>optimize_warp\<close> is set, the product of flow and gradient, the absolute value when
  \<open>no_polarity\<close> is set and the weights when they are given.
\<close>

definition unnormalized_increment ::
  "('e, 'o) collaborators \<Rightarrow> solver \<Rightarrow> real list \<Rightarrow> roi \<Rightarrow> real list list option \<Rightarrow>
     error + real list list" where
  "unnormalized_increment env s parameters r weights =
     (let x_min = xmin r; x_max = xmax r; y_min = ymin r; y_max = ymax r;
          gradient_x = crop2 x_min x_max y_min y_max (gradient_x_torch s);
          gradient_y = crop2 x_min x_max y_min y_max (gradient_y_torch s)
      in
        bind_err (extrapolate_dense_flow_from_estimates env s parameters) (\<lambda>dense_flow.
        let roi_dense_flow = map (crop2 x_min x_max y_min y_max) dense_flow in
        bind_err
          (if optimize_warp s then
             bind_err (extrapolate_dense_translation_from_estimates env s parameters)
               (\<lambda>translation.
                  let roi_translation = map (crop2 x_min x_max y_min y_max) translation
                  in Inr (warp_image_forward env gradient_x roi_translation,
                          warp_image_forward env gradient_y roi_translation))
           else Inr (gradient_x, gradient_y))
          (\<lambda>(gradient_x, gradient_y).
             bind_err (channel roi_dense_flow 0) (\<lambda>flow_x.
             bind_err (elementwise (\<lambda>u v. u * v) flow_x gradient_x) (\<lambda>term_x.
             bind_err (channel roi_dense_flow 1) (\<lambda>flow_y.
             bind_err (elementwise (\<lambda>u v. u * v) flow_y gradient_y) (\<lambda>term_y.
             bind_err (elementwise (\<lambda>u v. u + v) term_x term_y) (\<lambda>predicted_increment.
             let predicted_increment =
                   (if no_polarity s then map (map abs) predicted_increment
                    else predicted_increment)
             in case weights of
                  None \<Rightarrow> Inr predicted_increment
                | Some w \<Rightarrow> elementwise (\<lambda>u v. u * v) predicted_increment w))))))))"

text \<open>Lines 306--307: the division by the norm of the increment plus \<open>0.0001\<close>.\<close>

definition make_prediction_torch ::
  "('e, 'o) collaborators \<Rightarrow> solver \<Rightarrow> real list \<Rightarrow> roi \<Rightarrow> real list list option \<Rightarrow>
     error + real list list" where
  "make_prediction_torch env s parameters r weights =
     bind_err (unnormalized_increment env s parameters r weights) (\<lambda>predicted_increment.
     Inr (map (map (\<lambda>v. v / (linalg_norm predicted_increment + 0.0001))) predicted_increment))"

text \<open>
  The steps of the prediction as the specification lists them (section 4.4, steps 4 to 7),
  each a function of its own, for the comparison with \<open>make_prediction_torch\<close>: the product
  of flow and gradient at every pixel, the absolute value in the mode without polarity, the
  weights when they are supplied, and the normalisation.
\<close>

definition dot_stage ::
  "real list list \<Rightarrow> real list list \<Rightarrow> real list list \<Rightarrow> real list list \<Rightarrow> real list list" where
  "dot_stage flow_x gradient_x flow_y gradient_y =
     map2 (map2 (\<lambda>u v. u + v))
       (map2 (map2 (\<lambda>u v. u * v)) flow_x gradient_x)
       (map2 (map2 (\<lambda>u v. u * v)) flow_y gradient_y)"

definition polarity_stage :: "bool \<Rightarrow> real list list \<Rightarrow> real list list" where
  "polarity_stage no_pol u = (if no_pol then map (map abs) u else u)"

definition weight_stage :: "real list list option \<Rightarrow> real list list \<Rightarrow> real list list" where
  "weight_stage weights u =
     (case weights of None \<Rightarrow> u | Some w \<Rightarrow> map2 (map2 (\<lambda>a b. a * b)) u w)"

definition normalize_stage :: "real list list \<Rightarrow> real list list" where
  "normalize_stage u = map (map (\<lambda>v. v / (linalg_norm u + 0.0001))) u"

text \<open>
  A region of interest and weights for the sample grid: the first row and the first two
  columns of the images, and weights of both signs.
\<close>

definition demo_roi :: roi where
  "demo_roi = \<lparr>xmin = 0, xmax = 1, ymin = 0, ymax = 2\<rparr>"

definition demo_weights :: "real list list" where
  "demo_weights = [[1, - 1]]"

subsection \<open>The optimisation loop (\<open>estimate\<close>, lines 98--117)\<close>

text \<open>
  A tensor is an object: a variable holds a reference to it, and an assignment
  \<open>best_x = x0\<close> copies the reference, not the contents. The heap gives the contents of
  every tensor; \<open>x0\<close> and \<open>best_x\<close> are the two variables of the loop, \<open>grad\<close> is
  \<open>x0.grad\<close>, and \<open>opt\<close> the state of the optimiser and of the scheduler.
\<close>

record 'o loop_state =
  heap :: "nat \<Rightarrow> real list"
  x0 :: nat
  grad :: "real list option"
  best_x :: nat
  best_it :: nat
  min_loss :: scalar
  opt :: 'o

text \<open>
  One turn of \<open>for it in range(iters)\<close>; the Boolean of the result says whether the turn
  left the loop by \<open>break\<close>. \<open>optimizer.zero_grad()\<close> clears the gradient, the objective is
  evaluated on \<open>x0\<close> (an exception of the objective is not caught), the record of the best
  loss is updated, and \<open>loss.backward()\<close> is tried: its exception is logged and ends the
  loop, otherwise \<open>optimizer.step()\<close> overwrites the contents of \<open>x0\<close> and
  \<open>scheduler.step()\<close> follows.
\<close>

definition loop_body ::
  "('e, 'o) collaborators \<Rightarrow> (nat \<Rightarrow> real list \<Rightarrow> error + scalar) \<Rightarrow> nat \<Rightarrow> 'o loop_state \<Rightarrow>
     error + (bool \<times> 'o loop_state)" where
  "loop_body env objective it st =
     (let st = st\<lparr>grad := None\<rparr> in
      bind_err (objective it (heap st (x0 st))) (\<lambda>loss.
      let st = (if scalar_less loss (min_loss st)
                then st\<lparr>best_x := x0 st, min_loss := loss, best_it := it\<rparr>
                else st)
      in case backward env it (heap st (x0 st)) of
           None \<Rightarrow> Inr (True, st)
         | Some g \<Rightarrow>
             let st = st\<lparr>grad := Some g\<rparr>;
                 (o', p') = optimizer_step env (opt st) (heap st (x0 st)) g;
                 st = st\<lparr>heap := (heap st)(x0 st := p'), opt := o'\<rparr>;
                 st = st\<lparr>opt := scheduler_step env (opt st)\<rparr>
             in Inr (False, st)))"

fun opt_loop ::
  "('e, 'o) collaborators \<Rightarrow> (nat \<Rightarrow> real list \<Rightarrow> error + scalar) \<Rightarrow> nat list \<Rightarrow> 'o loop_state \<Rightarrow>
     error + 'o loop_state" where
  "opt_loop env objective [] st = Inr st"
| "opt_loop env objective (it # its) st =
     (case loop_body env objective it st of
        Inl e \<Rightarrow> Inl e
      | Inr (stop, st') \<Rightarrow> if stop then Inr st' else opt_loop env objective its st')"

text \<open>
  The turns of a list of iterations that all run to their end: \<open>None\<close> as soon as one of
  them raises or leaves the loop. It names the state in which a later iteration starts.
\<close>

fun run_through ::
  "('e, 'o) collaborators \<Rightarrow> (nat \<Rightarrow> real list \<Rightarrow> error + scalar) \<Rightarrow> nat list \<Rightarrow> 'o loop_state \<Rightarrow>
     'o loop_state option" where
  "run_through env objective [] st = Some st"
| "run_through env objective (it # its) st =
     (case loop_body env objective it st of
        Inr (False, st') \<Rightarrow> run_through env objective its st'
      | _ \<Rightarrow> None)"

text \<open>\<open>range(n)\<close> for an integer \<open>n\<close>: empty when \<open>n\<close> is not positive.\<close>

definition py_range :: "int \<Rightarrow> nat list" where
  "py_range n = [0..<nat n]"

text \<open>
  Line 98 and the two lines before it: \<open>x0\<close> is the tensor of reference 0, \<open>best_x\<close> is
  bound to the same tensor, and the optimiser is built with \<open>lr = 0.05\<close>, the step of the
  scheduler \<open>lr_step = iters\<close> and \<open>lr_decay = 0.1\<close>.
\<close>

definition init_loop_state :: "('e, 'o) collaborators \<Rightarrow> solver \<Rightarrow> real list \<Rightarrow> 'o loop_state" where
  "init_loop_state env s x0v =
     \<lparr>heap = (\<lambda>_. [])(0 := x0v), x0 = 0, grad = None, best_x = 0, best_it = 0,
      min_loss = PosInf, opt = new_optimizer env 0.05 (n_iter s) 0.1\<rparr>"

text \<open>Line 117, \<open>best_x = best_x.clone().detach()\<close>: a new tensor with the contents of the old.\<close>

definition clone_detach :: "'o loop_state \<Rightarrow> 'o loop_state" where
  "clone_detach st =
     (let fresh = Suc (max (x0 st) (best_x st))
      in st\<lparr>heap := (heap st)(fresh := heap st (best_x st)), best_x := fresh\<rparr>)"

subsection \<open>The driver \<open>estimate\<close> (lines 53--137)\<close>

text \<open>
  From the selection of the patches to the returned flow. The frame and the event cache
  set before line 63, and the visualisation and the release of the cache after line 118,
  are effects on collaborators and are left out; \<open>visualize_evolution\<close> returns at once
  unless debug logging is on. \<open>np.concatenate\<close> of an empty list raises ValueError. The
  result is the dense flow and the solver after the call.
\<close>

definition estimate ::
  "('e, 'o) collaborators \<Rightarrow> solver \<Rightarrow> 'e list \<Rightarrow> error + (real list list list \<times> solver)" where
  "estimate env s events =
     (let s = s\<lparr>estimate_indices := select_indices (crop_event env) s events\<rparr>;
          n_parameter_patch = length (estimate_indices s);
          s = s\<lparr>n_parameter_dim := length (initialize_velocity env)\<rparr>
      in if n_parameter_patch = 0 then Inl ValueError
         else
           let x0v = concat (replicate n_parameter_patch (initialize_velocity env));
               r = \<lparr>xmin = crop_xmin s, xmax = crop_xmax s,
                    ymin = crop_ymin s, ymax = crop_ymax s\<rparr>;
               (measured_increment, weights) = make_measured_increment env events r;
               iters = n_iter s
           in bind_err
                (opt_loop env (\<lambda>it x. objective_scipy env s it x measured_increment r weights)
                   (py_range iters) (init_loop_state env s x0v))
                (\<lambda>st.
                   let st = clone_detach st in
                   bind_err (extrapolate_dense_flow_from_estimates env s (heap st (best_x st)))
                     (\<lambda>dense_flow. Inr (dense_flow, s\<lparr>iter_cnt := iter_cnt s + 1\<rparr>))))"

text \<open>The pieces of \<open>estimate\<close>, named: the solver the loop runs with, the region of
  interest, the initial parameter vector and the objective of the loop.\<close>

definition estimate_solver :: "('e, 'o) collaborators \<Rightarrow> solver \<Rightarrow> 'e list \<Rightarrow> solver" where
  "estimate_solver env s events =
     s\<lparr>estimate_indices := select_indices (crop_event env) s events,
       n_parameter_dim := length (initialize_velocity env)\<rparr>"

definition estimate_roi :: "solver \<Rightarrow> roi" where
  "estimate_roi s =
     \<lparr>xmin = crop_xmin s, xmax = crop_xmax s, ymin = crop_ymin s, ymax = crop_ymax s\<rparr>"

definition estimate_x0 :: "('e, 'o) collaborators \<Rightarrow> solver \<Rightarrow> 'e list \<Rightarrow> real list" where
  "estimate_x0 env s events =
     concat (replicate (length (select_indices (crop_event env) s events))
       (initialize_velocity env))"

definition estimate_objective ::
  "('e, 'o) collaborators \<Rightarrow> solver \<Rightarrow> 'e list \<Rightarrow> nat \<Rightarrow> real list \<Rightarrow> error + scalar" where
  "estimate_objective env s events it x =
     objective_scipy env (estimate_solver env s events) it x
       (fst (make_measured_increment env events (estimate_roi s))) (estimate_roi s)
       (snd (make_measured_increment env events (estimate_roi s)))"

text \<open>The loop of \<open>estimate\<close> on its own: the state in which line 117 finds it.\<close>

definition estimate_loop ::
  "('e, 'o) collaborators \<Rightarrow> solver \<Rightarrow> 'e list \<Rightarrow> error + 'o loop_state" where
  "estimate_loop env s events =
     opt_loop env (estimate_objective env s events) (py_range (n_iter s))
       (init_loop_state env s (estimate_x0 env s events))"

subsection \<open>Sample collaborators\<close>

text \<open>
  Modelled from the spec: \<open>utils.SobelTorch\<close> is not part of the sources at hand. The
  intensity-to-flow operator is a discrete gradient of Sobel style with two output channels
  (the division by 8 is done by \<open>poisson_to_flow\<close>): here the 3 by 3 Sobel kernels on the
  first channel, with zero padding.
\<close>

definition pixel :: "nat \<times> nat \<Rightarrow> real list \<Rightarrow> int \<Rightarrow> int \<Rightarrow> real" where
  "pixel hw img r c =
     (if 0 \<le> r \<and> r < int (fst hw) \<and> 0 \<le> c \<and> c < int (snd hw)
      then img ! (nat r * snd hw + nat c) else 0)"

definition sobel_dx :: "nat \<times> nat \<Rightarrow> real list \<Rightarrow> int \<Rightarrow> int \<Rightarrow> real" where
  "sobel_dx hw img r c =
     (pixel hw img (r - 1) (c + 1) + 2 * pixel hw img r (c + 1) + pixel hw img (r + 1) (c + 1))
     - (pixel hw img (r - 1) (c - 1) + 2 * pixel hw img r (c - 1) + pixel hw img (r + 1) (c - 1))"

definition sobel_dy :: "nat \<times> nat \<Rightarrow> real list \<Rightarrow> int \<Rightarrow> int \<Rightarrow> real" where
  "sobel_dy hw img r c =
     (pixel hw img (r + 1) (c - 1) + 2 * pixel hw img (r + 1) c + pixel hw img (r + 1) (c + 1))
     - (pixel hw img (r - 1) (c - 1) + 2 * pixel hw img (r - 1) c + pixel hw img (r - 1) (c + 1))"

definition sobel3 :: "nat \<times> nat \<Rightarrow> real list list \<Rightarrow> real list list" where
  "sobel3 hw t =
     (case t of
        [] \<Rightarrow> []
      | img # _ \<Rightarrow>
          [map (\<lambda>i. sobel_dx hw img (int (i div snd hw)) (int (i mod snd hw)))
             [0..<fst hw * snd hw],
           map (\<lambda>i. sobel_dy hw img (int (i div snd hw)) (int (i mod snd hw)))
             [0..<fst hw * snd hw]])"

text \<open>
  A run of \<open>estimate\<close> to evaluate: plain gradient descent (\<open>torch.optim.SGD\<close>, whose step
  is \<open>p - lr * grad\<close>; the state of the optimiser is its learning rate), on the loss
  \<open>30 * vx\<^sup>2\<close> with its gradient \<open>(60 * vx, 0)\<close>, from the initial velocity \<open>(1, 0)\<close>. The
  interpolation turns every channel of the patch grid into an image of one row.
\<close>

definition demo_env :: "(int \<times> int, real) collaborators" where
  "demo_env =
     \<lparr>crop_event = box_crop,
      initialize_velocity = [1, 0],
      make_measured_increment = (\<lambda>events r. ([], None)),
      objective_scipy = (\<lambda>s it x m r w. Inr (Fin (30 * (x ! 0) * (x ! 0)))),
      backward = (\<lambda>it x. Some [60 * (x ! 0), 0]),
      new_optimizer = (\<lambda>lr lr_step lr_decay. lr),
      optimizer_step = (\<lambda>lr p g. (lr, map2 (\<lambda>a d. a - lr * d) p g)),
      scheduler_step = (\<lambda>lr. lr),
      SobelTorch = sobel3,
      interpolate_dense_flow_from_patch_tensor = (\<lambda>hw t. map (\<lambda>c. [c]) t),
      interpolate_dense_poisson_from_patch_tensor = (\<lambda>hw t. map (\<lambda>c. [c]) t),
      warp_image_forward = (\<lambda>img translation. img)\<rparr>"

text \<open>
  The sample grid with patch 1 active, under the four models: plain velocity, velocity
  with warp, the Poisson model and the angle model.
\<close>

definition velocity_solver :: solver where
  "velocity_solver = demo_solver\<lparr>estimate_indices := [1]\<rparr>"

definition warp_solver :: solver where
  "warp_solver = demo_solver\<lparr>optimize_warp := True, n_parameter_dim := 4, estimate_indices := [1]\<rparr>"

definition poisson_solver :: solver where
  "poisson_solver =
     demo_solver\<lparr>is_poisson_model := True, n_parameter_dim := 1, estimate_indices := [1]\<rparr>"

definition angle_solver :: solver where
  "angle_solver =
     demo_solver\<lparr>is_angle_model := True, n_parameter_dim := 1, estimate_indices := [1]\<rparr>"

definition polar_solver :: solver where
  "polar_solver = velocity_solver\<lparr>no_polarity := True\<rparr>"

text \<open>
  A second run to evaluate: gradient descent on the loss \<open>10 * vx\<^sup>2\<close>, whose first step
  goes from \<open>vx = 1\<close> to the minimum \<open>vx = 0\<close>, and a backward pass that raises at
  iteration 1.
\<close>

definition failing_env :: "(int \<times> int, real) collaborators" where
  "failing_env =
     demo_env\<lparr>objective_scipy := (\<lambda>s it x m r w. Inr (Fin (10 * (x ! 0) * (x ! 0)))),
       backward := (\<lambda>it x. if it = 1 then None else Some [20 * (x ! 0), 0])\<rparr>"

text \<open>And a loss that is not a number from the start, with a backward pass that raises.\<close>

definition nan_env :: "(int \<times> int, real) collaborators" where
  "nan_env = demo_env\<lparr>objective_scipy := (\<lambda>s it x m r w. Inr NaN), backward := (\<lambda>it x. None)\<rparr>"

text \<open>
  A summary of a state of the loop, for following a run turn by turn: the contents of
  \<open>x0\<close>, the state of the optimiser and the record of the best loss, in a state where
  \<open>best_x\<close> and \<open>x0\<close> refer to one tensor.
\<close>

definition tracks :: "'o loop_state \<Rightarrow> real list \<Rightarrow> 'o \<Rightarrow> scalar \<Rightarrow> nat \<Rightarrow> bool" where
  "tracks st p ostate m b \<longleftrightarrow>
     heap st (x0 st) = p \<and> best_x st = x0 st \<and> opt st = ostate \<and>
     min_loss st = m \<and> best_it st = b"

section \<open>Properties\<close>

subsection \<open>The selection is a filter of the grid order\<close>

lemma select_step_eq:
  "select_step ce s ev acc i =
     (if center_in_roi s (patches s ! i) \<and> enough_events ce s ev (patches s ! i)
      then acc @ [i] else acc)"
  by (auto simp: select_step_def center_in_roi_def enough_events_def cropped_count_def Let_def)

lemma foldl_select_step:
  "foldl (select_step ce s ev) acc js =
     acc @ filter (\<lambda>i. center_in_roi s (patches s ! i) \<and> enough_events ce s ev (patches s ! i)) js"
  by (induction js arbitrary: acc) (simp_all add: select_step_eq)

lemma select_indices_filter:
  "select_indices ce s ev =
     filter (\<lambda>i. center_in_roi s (patches s ! i) \<and> enough_events ce s ev (patches s ! i))
       [0..<n_patch s]"
  by (simp add: select_indices_def foldl_select_step)

lemma select_indices_mem:
  "i \<in> set (select_indices ce s ev) \<longleftrightarrow>
     i < n_patch s \<and> center_in_roi s (patches s ! i) \<and> enough_events ce s ev (patches s ! i)"
  by (auto simp: select_indices_filter)

lemma select_indices_sorted: "sorted (select_indices ce s ev)"
  by (simp add: select_indices_filter sorted_wrt_filter)

lemma select_indices_distinct: "distinct (select_indices ce s ev)"
  by (simp add: select_indices_filter)

lemma select_indices_bound: "i \<in> set (select_indices ce s ev) \<Longrightarrow> i < n_patch s"
  by (simp add: select_indices_mem)

lemma demo_select: "select_indices box_crop demo_solver demo_events = [1]"
  by (simp add: select_indices_def select_step_def demo_solver_def demo_events_def n_patch_def
      mk_patch_def box_crop_def upt_rec [of 0] numeral_eq_Suc)

lemma corner_select: "select_indices box_crop corner_solver demo_events = [0, 1, 2, 3]"
  by (simp add: select_indices_def select_step_def corner_solver_def demo_solver_def n_patch_def
      mk_patch_def upt_rec [of 0] numeral_eq_Suc)

text \<open>
  C3. The active patch set is the list of the grid indices, in grid order, whose patch has
  its centre within the bounds of the region of interest and for which thresholding is off
  or the number of events cropped to the box of the patch is greater than \<open>event_thres\<close>:
  an index is appended if and only if both hold. With \<open>event_thres = 10\<close> a patch of
  exactly 9 cropped events is left out, and a patch of 11 inside the region is taken.
\<close>

theorem active_patch_set_iff:
  "select_indices ce s ev =
     filter (\<lambda>i. center_in_roi s (patches s ! i) \<and>
                 (\<not> do_event_thresholding s \<or>
                  event_thres s < real (cropped_count ce ev (patches s ! i))))
       [0..<n_patch s]
   \<and> (i \<in> set (select_indices ce s ev) \<longleftrightarrow>
        i < n_patch s \<and> center_in_roi s (patches s ! i) \<and>
        (\<not> do_event_thresholding s \<or>
         event_thres s < real (cropped_count ce ev (patches s ! i))))
   \<and> (do_event_thresholding s \<and> event_thres s = 10 \<and>
        cropped_count ce ev (patches s ! i) = 9
        \<longrightarrow> i \<notin> set (select_indices ce s ev))
   \<and> (do_event_thresholding s \<and> event_thres s = 10 \<and>
        cropped_count ce ev (patches s ! i) = 11 \<and>
        i < n_patch s \<and> center_in_roi s (patches s ! i)
        \<longrightarrow> i \<in> set (select_indices ce s ev))"
proof -
  have eq: "enough_events ce s ev p =
            (\<not> do_event_thresholding s \<or> event_thres s < real (cropped_count ce ev p))" for p
    by (simp add: enough_events_def)
  have filt: "select_indices ce s ev =
      filter (\<lambda>i. center_in_roi s (patches s ! i) \<and>
                  (\<not> do_event_thresholding s \<or>
                   event_thres s < real (cropped_count ce ev (patches s ! i))))
        [0..<n_patch s]"
    by (simp add: select_indices_filter eq)
  have mem: "i \<in> set (select_indices ce s ev) \<longleftrightarrow>
      i < n_patch s \<and> center_in_roi s (patches s ! i) \<and>
      (\<not> do_event_thresholding s \<or>
       event_thres s < real (cropped_count ce ev (patches s ! i)))"
    by (simp add: select_indices_mem eq)
  have nine: "do_event_thresholding s \<and> event_thres s = 10 \<and>
      cropped_count ce ev (patches s ! i) = 9 \<longrightarrow> i \<notin> set (select_indices ce s ev)"
    by (simp add: mem)
  have eleven: "do_event_thresholding s \<and> event_thres s = 10 \<and>
      cropped_count ce ev (patches s ! i) = 11 \<and> i < n_patch s \<and>
      center_in_roi s (patches s ! i) \<longrightarrow> i \<in> set (select_indices ce s ev)"
    by (simp add: mem)
  from filt mem nine eleven show ?thesis by blast
qed

text \<open>
  The instance of the sample grid: thresholding is on with \<open>event_thres = 10\<close>, patch 0
  holds 9 events and is left out, patch 1 holds 11 events inside the region and is taken.
\<close>

theorem active_patch_set_iff_witness:
  "do_event_thresholding demo_solver \<and> event_thres demo_solver = 10 \<and>
   cropped_count box_crop demo_events (patches demo_solver ! 0) = 9 \<and>
   cropped_count box_crop demo_events (patches demo_solver ! 1) = 11 \<and>
   1 < n_patch demo_solver \<and> center_in_roi demo_solver (patches demo_solver ! 1) \<and>
   0 \<notin> set (select_indices box_crop demo_solver demo_events) \<and>
   1 \<in> set (select_indices box_crop demo_solver demo_events)"
proof -
  have thr: "do_event_thresholding demo_solver \<and> event_thres demo_solver = 10"
    by (simp add: demo_solver_def)
  have c0: "cropped_count box_crop demo_events (patches demo_solver ! 0) = 9"
    by (simp add: cropped_count_def box_crop_def demo_events_def demo_solver_def mk_patch_def)
  have c1: "cropped_count box_crop demo_events (patches demo_solver ! 1) = 11"
    by (simp add: cropped_count_def box_crop_def demo_events_def demo_solver_def mk_patch_def)
  have in1: "1 < n_patch demo_solver \<and> center_in_roi demo_solver (patches demo_solver ! 1)"
    by (simp add: n_patch_def center_in_roi_def demo_solver_def mk_patch_def)
  from active_patch_set_iff [of box_crop demo_solver demo_events 0] thr c0
  have out0: "0 \<notin> set (select_indices box_crop demo_solver demo_events)" by blast
  from active_patch_set_iff [of box_crop demo_solver demo_events 1] thr c1 in1
  have in1': "1 \<in> set (select_indices box_crop demo_solver demo_events)" by blast
  from thr c0 c1 in1 out0 in1' show ?thesis by blast
qed

text \<open>
  C10. The tests on the centre are strict comparisons, so a centre that lies exactly on a
  bound of the region (\<open>x = crop_xmin\<close>, \<open>x = crop_xmax\<close>, \<open>y = crop_ymin\<close> or
  \<open>y = crop_ymax\<close>) passes the test of that coordinate: with each coordinate on a bound or
  strictly between the bounds, the turn of the loop is not ended by a \<open>continue\<close>, and the
  patch is taken exactly when thresholding is off or its events exceed the threshold.
\<close>

theorem roi_bounds_inclusive:
  assumes i: "i < n_patch s"
    and roi: "crop_xmin s \<le> crop_xmax s" "crop_ymin s \<le> crop_ymax s"
    and px: "patch_x (patches s ! i) = crop_xmin s \<or> patch_x (patches s ! i) = crop_xmax s \<or>
             (crop_xmin s < patch_x (patches s ! i) \<and> patch_x (patches s ! i) < crop_xmax s)"
    and py: "patch_y (patches s ! i) = crop_ymin s \<or> patch_y (patches s ! i) = crop_ymax s \<or>
             (crop_ymin s < patch_y (patches s ! i) \<and> patch_y (patches s ! i) < crop_ymax s)"
  shows "select_step ce s ev acc i =
           (if \<not> do_event_thresholding s \<or>
               event_thres s < real (cropped_count ce ev (patches s ! i))
            then acc @ [i] else acc)
         \<and> (i \<in> set (select_indices ce s ev) \<longleftrightarrow>
              \<not> do_event_thresholding s \<or>
              event_thres s < real (cropped_count ce ev (patches s ! i)))"
proof -
  from roi px py have c: "center_in_roi s (patches s ! i)"
    unfolding center_in_roi_def by linarith
  have e: "enough_events ce s ev (patches s ! i) =
           (\<not> do_event_thresholding s \<or>
            event_thres s < real (cropped_count ce ev (patches s ! i)))"
    by (simp add: enough_events_def)
  show ?thesis
    using i c e by (simp add: select_step_eq select_indices_mem)
qed

text \<open>
  The instance of the four corner patches: \<open>(crop_xmin, crop_ymin)\<close> and
  \<open>(crop_xmax, crop_ymax)\<close> are both taken.
\<close>

theorem roi_bounds_inclusive_witness:
  "patch_x (patches corner_solver ! 0) = crop_xmin corner_solver \<and>
   patch_y (patches corner_solver ! 0) = crop_ymin corner_solver \<and>
   patch_x (patches corner_solver ! 1) = crop_xmax corner_solver \<and>
   patch_y (patches corner_solver ! 1) = crop_ymax corner_solver \<and>
   0 \<in> set (select_indices box_crop corner_solver demo_events) \<and>
   1 \<in> set (select_indices box_crop corner_solver demo_events)"
proof -
  have n: "0 < n_patch corner_solver" "1 < n_patch corner_solver"
    by (simp_all add: n_patch_def corner_solver_def)
  have r: "crop_xmin corner_solver \<le> crop_xmax corner_solver"
          "crop_ymin corner_solver \<le> crop_ymax corner_solver"
    by (simp_all add: corner_solver_def demo_solver_def)
  have p0: "patch_x (patches corner_solver ! 0) = crop_xmin corner_solver"
           "patch_y (patches corner_solver ! 0) = crop_ymin corner_solver"
    by (simp_all add: corner_solver_def demo_solver_def mk_patch_def)
  have p1: "patch_x (patches corner_solver ! 1) = crop_xmax corner_solver"
           "patch_y (patches corner_solver ! 1) = crop_ymax corner_solver"
    by (simp_all add: corner_solver_def demo_solver_def mk_patch_def)
  have off: "\<not> do_event_thresholding corner_solver"
    by (simp add: corner_solver_def)
  from roi_bounds_inclusive [of 0 corner_solver box_crop demo_events "[]"] n r p0 off
  have a: "0 \<in> set (select_indices box_crop corner_solver demo_events)" by blast
  from roi_bounds_inclusive [of 1 corner_solver box_crop demo_events "[]"] n r p1 off
  have b: "1 \<in> set (select_indices box_crop corner_solver demo_events)" by blast
  from p0 p1 a b show ?thesis by blast
qed

subsection \<open>Scatter, reshape and error plumbing\<close>


lemma fold_upd_length:
  "length (fold (\<lambda>(j, a) r. r[j := g j a]) ps row) = length row"
  by (induction ps arbitrary: row) (auto)


lemma fold_opt_length: "length (fold (\<lambda>(j, a) r. r[j := Some a]) ps R) = length R"
  by (induction ps arbitrary: R) auto

lemma scatter_opt_length: "length (scatter_opt n idx vs) = n"
  by (simp add: scatter_opt_def fold_opt_length)

lemma fold_opt_notin:
  "i \<notin> fst ` set ps \<Longrightarrow> fold (\<lambda>(j, a) r. r[j := Some a]) ps R ! i = R ! i"
  by (induction ps arbitrary: R) (auto)

lemma fold_opt_in:
  "i \<in> fst ` set ps \<Longrightarrow> i < length R \<Longrightarrow>
   \<exists>a \<in> snd ` set ps. fold (\<lambda>(j, a) r. r[j := Some a]) ps R ! i = Some a"
proof (induction ps arbitrary: R)
  case Nil then show ?case by simp
next
  case (Cons p ps)
  obtain j a where p: "p = (j, a)" by (cases p)
  show ?case
  proof (cases "i \<in> fst ` set ps")
    case True
    with Cons.IH [of "R[j := Some a]"] Cons.prems p show ?thesis by auto
  next
    case False
    with Cons.prems p have ij: "i = j" by auto
    from False have "fold (\<lambda>(j, a) r. r[j := Some a]) ps (R[j := Some a]) ! i = (R[j := Some a]) ! i"
      by (rule fold_opt_notin)
    with ij Cons.prems p show ?thesis by auto
  qed
qed

lemma fold_opt_distinct:
  "distinct (map fst ps) \<Longrightarrow> (i, a) \<in> set ps \<Longrightarrow> i < length R \<Longrightarrow>
   fold (\<lambda>(j, a) r. r[j := Some a]) ps R ! i = Some a"
proof (induction ps arbitrary: R)
  case Nil then show ?case by simp
next
  case (Cons p ps)
  obtain j b where p: "p = (j, b)" by (cases p)
  show ?case
  proof (cases "(i, a) \<in> set ps")
    case True
    with Cons.IH [of "R[j := Some b]"] Cons.prems p show ?thesis by auto
  next
    case False
    with Cons.prems p have ij: "i = j" "a = b" by auto
    from Cons.prems p ij have "i \<notin> fst ` set ps" by (auto simp: image_iff)
    then have "fold (\<lambda>(j, a) r. r[j := Some a]) ps (R[j := Some b]) ! i = (R[j := Some b]) ! i"
      by (rule fold_opt_notin)
    with ij Cons.prems p show ?thesis by auto
  qed
qed

lemma fold_upd_as_opt:
  "fold (\<lambda>(j, a) r. r[j := h a]) ps (map (case_option z h) R) =
   map (case_option z h) (fold (\<lambda>(j, a) r. r[j := Some a]) ps R)"
proof (induction ps arbitrary: R)
  case Nil then show ?case by simp
next
  case (Cons p ps)
  obtain j b where p: "p = (j, b)" by (cases p)
  have "(map (case_option z h) R)[j := h b] = map (case_option z h) (R[j := Some b])"
    by (simp add: map_update)
  with Cons.IH [of "R[j := Some b]"] p show ?case by simp
qed

lemma fold_cong_set:
  "(\<And>p r. p \<in> set ps \<Longrightarrow> f p r = g p r) \<Longrightarrow> fold f ps R = fold g ps R"
  by (induction ps arbitrary: R) auto


lemma fold_opt_map:
  "fold (\<lambda>(j, a) r. r[j := Some a]) (map (\<lambda>(i, a). (i, g a)) ps) (map (map_option g) R) =
   map (map_option g) (fold (\<lambda>(j, a) r. r[j := Some a]) ps R)"
proof (induction ps arbitrary: R)
  case Nil then show ?case by simp
next
  case (Cons p ps)
  obtain j b where p: "p = (j, b)" by (cases p)
  have "(map (map_option g) R)[j := Some (g b)] = map (map_option g) (R[j := Some b])"
    by (simp add: map_update)
  with Cons.IH [of "R[j := Some b]"] p show ?case by simp
qed

lemma scatter_opt_map: "scatter_opt n idx (map g w) = map (map_option g) (scatter_opt n idx w)"
proof -
  have z: "zip idx (map g w) = map (\<lambda>(i, a). (i, g a)) (zip idx w)"
    by (simp add: zip_map2)
  have r: "replicate n None = map (map_option g) (replicate n None)" by simp
  show ?thesis
    unfolding scatter_opt_def z by (subst r) (rule fold_opt_map)
qed

lemma scatter_opt_inactive:
  "i \<notin> set idx \<Longrightarrow> i < n \<Longrightarrow> scatter_opt n idx w ! i = None"
proof -
  assume a: "i \<notin> set idx" and b: "i < n"
  from a have "i \<notin> fst ` set (zip idx w)" by (auto dest: set_zip_leftD)
  then show ?thesis unfolding scatter_opt_def using b by (simp add: fold_opt_notin)
qed

lemma scatter_opt_active:
  assumes "i \<in> set idx" "i < n" "length w = length idx"
  shows "\<exists>a \<in> set w. scatter_opt n idx w ! i = Some a"
proof -
  from assms have "i \<in> fst ` set (zip idx w)" by (simp add: map_fst_zip flip: set_map)
  then have "\<exists>a \<in> snd ` set (zip idx w). fold (\<lambda>(j, a) r. r[j := Some a]) (zip idx w) (replicate n None) ! i = Some a"
    using assms by (intro fold_opt_in) simp_all
  moreover have "snd ` set (zip idx w) = set w" using assms by (simp add: map_snd_zip flip: set_map)
  ultimately show ?thesis by (simp add: scatter_opt_def)
qed

lemma scatter_opt_distinct:
  assumes "distinct idx" "j < length idx" "length w = length idx" "idx ! j < n"
  shows "scatter_opt n idx w ! (idx ! j) = Some (w ! j)"
proof -
  have d: "distinct (map fst (zip idx w))" using assms by (simp add: map_fst_zip)
  have m: "(idx ! j, w ! j) \<in> set (zip idx w)" using assms by (auto simp: set_zip)
  show ?thesis unfolding scatter_opt_def using d m assms(4) by (intro fold_opt_distinct) simp_all
qed

lemma bind_err_simps:
  "bind_err (Inl e) f = Inl e" "bind_err (Inr v) f = f v"
  by (simp_all add: bind_err_def)

lemma bind_err_Inr_iff: "bind_err m f = Inr y \<longleftrightarrow> (\<exists>v. m = Inr v \<and> f v = Inr y)"
  by (cases m) (simp_all add: bind_err_def)

lemma assert_that_Inr: "assert_that b = Inr u \<longleftrightarrow> b"
  by (simp add: assert_that_def)

lemma index_add_zeros:
  assumes "index_add (replicate n 0) idx v = Inr r"
  shows "\<exists>w. broadcast_to (length idx) v = Some w \<and> (\<forall>i \<in> set idx. i < n) \<and>
             r = map (case_option 0 (\<lambda>a. a)) (scatter_opt n idx w)"
proof -
  from assms have inb: "\<forall>i \<in> set idx. i < n"
    by (auto simp: index_add_def split: if_splits)
  from assms obtain w where w: "broadcast_to (length idx) v = Some w"
    and r: "r = fold (\<lambda>(i, a) r. r[i := replicate n 0 ! i + a]) (zip idx w) (replicate n 0)"
    by (auto simp: index_add_def split: if_splits option.splits)
  have "fold (\<lambda>(i, a) r. r[i := replicate n 0 ! i + a]) (zip idx w) (replicate n 0) =
        fold (\<lambda>(i, a) r. r[i := (\<lambda>a. a) a]) (zip idx w) (replicate n (0::real))"
    using inb by (intro fold_cong_set) (auto dest: set_zip_leftD)
  also have "replicate n (0::real) = map (case_option 0 (\<lambda>a. a)) (replicate n None)" by simp
  also have "fold (\<lambda>(i, a) r. r[i := (\<lambda>a. a) a]) (zip idx w) (map (case_option 0 (\<lambda>a. a)) (replicate n None)) =
      map (case_option (0::real) (\<lambda>a. a)) (scatter_opt n idx w)"
    unfolding scatter_opt_def by (rule fold_upd_as_opt)
  finally show ?thesis using w inb r by simp
qed

lemma concat_rows_length:
  "\<forall>row \<in> set t. length row = n \<Longrightarrow> length (concat t) = length t * n"
  by (induction t) auto

lemma regroup_rows:
  "\<forall>row \<in> set t. length row = m \<Longrightarrow>
   map (\<lambda>k. take m (drop (k * m) (concat t))) [0..<length t] = t"
proof (induction t)
  case Nil then show ?case by simp
next
  case (Cons row t)
  then have l: "length row = m" and rest: "\<forall>r \<in> set t. length r = m" by simp_all
  have "[0..<length (row # t)] = 0 # map Suc [0..<length t]"
    by (simp add: upt_conv_Cons map_Suc_upt del: upt_Suc)
  then have "map (\<lambda>k. take m (drop (k * m) (concat (row # t)))) [0..<length (row # t)] =
      take m (row @ concat t) # map (\<lambda>k. take m (drop (Suc k * m) (row @ concat t))) [0..<length t]"
    by (simp add: comp_def del: upt_Suc)
  also have "take m (row @ concat t) = row" using l by simp
  also have "map (\<lambda>k. take m (drop (Suc k * m) (row @ concat t))) [0..<length t] =
      map (\<lambda>k. take m (drop (k * m) (concat t))) [0..<length t]"
    using l by (simp add: add.commute)
  also have "\<dots> = t" using Cons.IH rest by simp
  finally show ?case .
qed

lemma reshape_grid_rows:
  assumes "length t = c" "\<forall>row \<in> set t. length row = n"
  shows "reshape_grid c hw t = (if c = 0 \<or> n = fst hw * snd hw then Inr t else Inl RuntimeError)"
proof (cases "c = 0 \<or> n = fst hw * snd hw")
  case True
  then show ?thesis
  proof
    assume "c = 0" with assms show ?thesis by (simp add: reshape_grid_def)
  next
    assume n: "n = fst hw * snd hw"
    from concat_rows_length [OF assms(2)] assms(1) n
    have "length (concat t) = c * (fst hw * snd hw)" by simp
    moreover have "map (\<lambda>k. take n (drop (k * n) (concat t))) [0..<c] = t"
      using regroup_rows [of t n] assms by simp
    ultimately show ?thesis using n by (simp add: reshape_grid_def Let_def)
  qed
next
  case False
  from concat_rows_length [OF assms(2)] assms(1) False
  have "length (concat t) \<noteq> c * (fst hw * snd hw)" by simp
  with False show ?thesis by (simp add: reshape_grid_def Let_def)
qed



lemma reshape_T_Inr:
  "reshape_T d ps = Inr rows \<longleftrightarrow>
     0 < d \<and> d dvd length ps \<and>
     rows = map (\<lambda>j. map (\<lambda>k. ps ! (k * d + j)) [0..<length ps div d]) [0..<d]"
  by (auto simp: reshape_T_def dvd_eq_mod_eq_0)

lemma reshape_T_Inl: "reshape_T d ps = Inl e \<longleftrightarrow> (d = 0 \<or> \<not> d dvd length ps) \<and> e = RuntimeError"
  by (auto simp: reshape_T_def dvd_eq_mod_eq_0)

lemma fold_upd_notin:
  "i \<notin> fst ` set ps \<Longrightarrow> fold (\<lambda>(j, a) r. r[j := g j a]) ps R ! i = R ! i"
  by (induction ps arbitrary: R) auto

lemma index_put_Inr:
  assumes "index_put row idx v = Inr r"
  shows "length r = length row \<and> (i \<notin> set idx \<longrightarrow> r ! i = row ! i)"
proof -
  from assms obtain w where r: "r = fold (\<lambda>(i, a) r. r[i := a]) (zip idx w) row"
    by (auto simp: index_put_def split: if_splits option.splits)
  have "i \<notin> set idx \<Longrightarrow> i \<notin> fst ` set (zip idx w)" by (auto dest: set_zip_leftD)
  then show ?thesis unfolding r
    using fold_upd_length [of "\<lambda>j a. a" "zip idx w" row]
      fold_upd_notin [of i "zip idx w" "\<lambda>j a. a" row] by simp
qed

lemma index_put_rows_Inr:
  "index_put_rows rows idx v = Inr g \<Longrightarrow>
     length g = length rows \<and>
     (\<forall>k < length rows. length (g ! k) = length (rows ! k) \<and>
        (i \<notin> set idx \<longrightarrow> g ! k ! i = rows ! k ! i))"
proof (induction rows arbitrary: g)
  case Nil then show ?case by simp
next
  case (Cons row rows)
  from Cons.prems obtain r rs where r: "index_put row idx v = Inr r"
    and rs: "index_put_rows rows idx v = Inr rs" and g: "g = r # rs"
    by (auto simp: bind_err_Inr_iff)
  from index_put_Inr [OF r, of i] Cons.IH [OF rs] g show ?case
    by (auto simp: nth_Cons split: nat.splits)
qed


lemma scatter_pair_Inr:
  assumes "bind_err (index_add (replicate n 0) idx v_x) (\<lambda>row0.
           bind_err (index_add (replicate n 0) idx v_y) (\<lambda>row1.
           reshape_grid 2 hw [row0, row1])) = Inr t"
  shows "\<exists>wx wy. broadcast_to (length idx) v_x = Some wx \<and>
           broadcast_to (length idx) v_y = Some wy \<and>
           (\<forall>i \<in> set idx. i < n) \<and> n = fst hw * snd hw \<and>
           t = [map (case_option 0 (\<lambda>a. a)) (scatter_opt n idx wx),
                map (case_option 0 (\<lambda>a. a)) (scatter_opt n idx wy)]"
proof -
  from assms obtain row0 row1 where r0: "index_add (replicate n 0) idx v_x = Inr row0"
    and r1: "index_add (replicate n 0) idx v_y = Inr row1"
    and g: "reshape_grid 2 hw [row0, row1] = Inr t"
    by (auto simp: bind_err_Inr_iff)
  from index_add_zeros [OF r0] obtain wx where wx: "broadcast_to (length idx) v_x = Some wx"
    and inb: "\<forall>i \<in> set idx. i < n"
    and row0: "row0 = map (case_option 0 (\<lambda>a. a)) (scatter_opt n idx wx)" by blast
  from index_add_zeros [OF r1] obtain wy where wy: "broadcast_to (length idx) v_y = Some wy"
    and row1: "row1 = map (case_option 0 (\<lambda>a. a)) (scatter_opt n idx wy)" by blast
  have len: "\<forall>row \<in> set [row0, row1]. length row = n"
    by (simp add: row0 row1 scatter_opt_length)
  from reshape_grid_rows [of "[row0, row1]" 2 n hw] len g
  have "n = fst hw * snd hw" and "t = [row0, row1]" by (auto split: if_splits)
  with wx wy inb row0 row1 show ?thesis by blast
qed

lemma scatter_row_inactive:
  "i < n \<Longrightarrow> i \<notin> set idx \<Longrightarrow> map (case_option (0::real) (\<lambda>a. a)) (scatter_opt n idx w) ! i = 0"
  by (simp add: scatter_opt_length scatter_opt_inactive)

lemma scatter_pair_inactive:
  assumes "bind_err (index_add (replicate n 0) idx v_x) (\<lambda>row0.
           bind_err (index_add (replicate n 0) idx v_y) (\<lambda>row1.
           reshape_grid 2 hw [row0, row1])) = Inr t"
    and "i < n" "i \<notin> set idx"
  shows "length t = 2 \<and> length (t ! 0) = n \<and> length (t ! 1) = n \<and> t ! 0 ! i = 0 \<and> t ! 1 ! i = 0"
proof -
  from scatter_pair_Inr [OF assms(1)] obtain wx wy where
    t: "t = [map (case_option 0 (\<lambda>a. a)) (scatter_opt n idx wx),
             map (case_option 0 (\<lambda>a. a)) (scatter_opt n idx wy)]" by blast
  show ?thesis unfolding t using assms(2,3)
    by (simp add: scatter_opt_length scatter_opt_inactive)
qed

lemma get_patch_flow_plain_inactive:
  assumes "\<not> is_poisson_model s" "get_patch_flow env s ps = Inr t"
    and "i < n_patch s" "i \<notin> set (estimate_indices s)"
  shows "length t = 2 \<and> length (t ! 0) = n_patch s \<and> length (t ! 1) = n_patch s \<and>
         t ! 0 ! i = 0 \<and> t ! 1 ! i = 0"
proof -
  from assms(1,2) obtain v_x v_y where
    "bind_err (index_add (replicate (n_patch s) 0) (estimate_indices s) v_x) (\<lambda>row0.
     bind_err (index_add (replicate (n_patch s) 0) (estimate_indices s) v_y) (\<lambda>row1.
     reshape_grid 2 (patch_image_size s) [row0, row1])) = Inr t"
    by (auto simp: get_patch_flow_def bind_err_Inr_iff split: if_splits)
  from scatter_pair_inactive [OF this assms(3,4)] show ?thesis .
qed

lemma get_patch_translation_inactive:
  assumes "get_patch_translation s ps = Inr t"
    and "i < n_patch s" "i \<notin> set (estimate_indices s)"
  shows "length t = 2 \<and> length (t ! 0) = n_patch s \<and> length (t ! 1) = n_patch s \<and>
         t ! 0 ! i = 0 \<and> t ! 1 ! i = 0"
proof -
  from assms(1) obtain v_x v_y where
    "bind_err (index_add (replicate (n_patch s) 0) (estimate_indices s) v_x) (\<lambda>row0.
     bind_err (index_add (replicate (n_patch s) 0) (estimate_indices s) v_y) (\<lambda>row1.
     reshape_grid 2 (patch_image_size s) [row0, row1])) = Inr t"
    by (auto simp: get_patch_translation_def bind_err_Inr_iff split: if_splits)
  from scatter_pair_inactive [OF this assms(2,3)] show ?thesis .
qed

lemma get_patch_poisson_inactive:
  assumes "get_patch_poisson s ps = Inr t"
    and "i < n_patch s" "i \<notin> set (estimate_indices s)"
  shows "length t = 1 \<and> length (t ! 0) = n_patch s \<and> t ! 0 ! i = 0"
proof -
  from assms(1) obtain v row0 where r0: "index_add (replicate (n_patch s) 0) (estimate_indices s) v = Inr row0"
    and g: "reshape_grid 1 (patch_image_size s) [row0] = Inr t"
    by (auto simp: get_patch_poisson_def bind_err_Inr_iff)
  from index_add_zeros [OF r0] obtain w where
    row0: "row0 = map (case_option 0 (\<lambda>a. a)) (scatter_opt (n_patch s) (estimate_indices s) w)" by blast
  have len: "\<forall>row \<in> set [row0]. length row = n_patch s"
    by (simp add: row0 scatter_opt_length)
  from reshape_grid_rows [of "[row0]" 1 "n_patch s" "patch_image_size s"] len g
  have "t = [row0]" by (auto split: if_splits)
  then show ?thesis using assms(2,3) by (simp add: row0 scatter_opt_length scatter_opt_inactive)
qed

lemma get_patch_flow_poisson_scatter:
  assumes "is_poisson_model s" "get_patch_flow env s ps = Inr t"
  shows "\<exists>grid. t = poisson_to_flow env s grid \<and> length grid = n_parameter_dim s \<and>
           (\<forall>k < n_parameter_dim s. length (grid ! k) = n_patch s \<and>
              (\<forall>i. i < n_patch s \<and> i \<notin> set (estimate_indices s) \<longrightarrow> grid ! k ! i = 0))"
proof -
  from assms obtain v p grid where
    p: "index_put_rows (zeros (n_parameter_dim s) (n_patch s)) (estimate_indices s) v = Inr p"
    and g: "reshape_grid (n_parameter_dim s) (patch_image_size s) p = Inr grid"
    and t: "t = poisson_to_flow env s grid"
    by (auto simp: get_patch_flow_def bind_err_Inr_iff)
  have lp: "length p = n_parameter_dim s"
    using index_put_rows_Inr [OF p] by (simp add: zeros_def)
  have rows: "\<forall>k < n_parameter_dim s. length (p ! k) = n_patch s \<and>
      (\<forall>i. i < n_patch s \<and> i \<notin> set (estimate_indices s) \<longrightarrow> p ! k ! i = 0)"
  proof (intro allI impI)
    fix k assume k: "k < n_parameter_dim s"
    show "length (p ! k) = n_patch s \<and>
      (\<forall>i. i < n_patch s \<and> i \<notin> set (estimate_indices s) \<longrightarrow> p ! k ! i = 0)"
    proof (intro conjI allI impI)
      show "length (p ! k) = n_patch s"
        using index_put_rows_Inr [OF p] k by (simp add: zeros_def)
    next
      fix i assume "i < n_patch s \<and> i \<notin> set (estimate_indices s)"
      then show "p ! k ! i = 0"
        using index_put_rows_Inr [OF p, of i] k by (simp add: zeros_def)
    qed
  qed
  have "\<forall>row \<in> set p. length row = n_patch s"
    using rows lp by (auto simp: in_set_conv_nth)
  from reshape_grid_rows [OF lp this, of "patch_image_size s"] g have "grid = p"
    by (auto split: if_splits)
  with t lp rows show ?thesis by blast
qed


subsection \<open>The angle model\<close>


lemma broadcast_to_length: "broadcast_to k v = Some w \<Longrightarrow> length w = k"
  by (auto simp: broadcast_to_def split: if_splits)

lemma broadcast_to_set: "broadcast_to k v = Some w \<Longrightarrow> set w \<subseteq> set v"
  by (cases v) (auto simp: broadcast_to_def split: if_splits)

lemma broadcast_to_map:
  "broadcast_to k (map g v) = Some w \<Longrightarrow> \<exists>u. broadcast_to k v = Some u \<and> w = map g u"
  by (cases v) (auto simp: broadcast_to_def split: if_splits)

lemma broadcast_to_same: "length v = k \<Longrightarrow> broadcast_to k v = Some v"
  by (simp add: broadcast_to_def)

lemma reshape_T_row0:
  "reshape_T d ps = Inr rows \<Longrightarrow> rows ! 0 = map (\<lambda>k. ps ! (k * d)) [0..<length ps div d]"
  by (auto simp: reshape_T_Inr nth_map_upt)


lemma angle_channels:
  assumes na: "\<not> is_poisson_model s" and an: "is_angle_model s"
    and t: "get_patch_flow env s ps = Inr t"
  shows "\<exists>\<theta>s. length \<theta>s = length (estimate_indices s) \<and>
           set \<theta>s \<subseteq> (\<lambda>k. ps ! (k * n_parameter_dim s)) ` {..< length ps div n_parameter_dim s} \<and>
           (length ps = length (estimate_indices s) * n_parameter_dim s \<longrightarrow>
              \<theta>s = map (\<lambda>k. ps ! (k * n_parameter_dim s)) [0..<length (estimate_indices s)]) \<and>
           (\<forall>i \<in> set (estimate_indices s). i < n_patch s) \<and>
           t = [map (case_option 0 (\<lambda>a. a))
                  (map (map_option sin) (scatter_opt (n_patch s) (estimate_indices s) \<theta>s)),
                map (case_option 0 (\<lambda>a. a))
                  (map (map_option cos) (scatter_opt (n_patch s) (estimate_indices s) \<theta>s))]"
proof -
  let ?d = "n_parameter_dim s" and ?idx = "estimate_indices s" and ?n = "n_patch s"
  from na an t obtain rows where rows: "reshape_T ?d ps = Inr rows"
    and d13: "?d \<in> {1, 3}"
    and sc: "bind_err (index_add (replicate ?n 0) ?idx (map sin (rows ! 0))) (\<lambda>row0.
             bind_err (index_add (replicate ?n 0) ?idx (map cos (rows ! 0))) (\<lambda>row1.
             reshape_grid 2 (patch_image_size s) [row0, row1])) = Inr t"
    by (auto simp: get_patch_flow_def bind_err_Inr_iff assert_that_Inr split: if_splits)
  from scatter_pair_Inr [OF sc] obtain wx wy where
    wx: "broadcast_to (length ?idx) (map sin (rows ! 0)) = Some wx"
    and wy: "broadcast_to (length ?idx) (map cos (rows ! 0)) = Some wy"
    and inb: "\<forall>i \<in> set ?idx. i < ?n"
    and tt: "t = [map (case_option 0 (\<lambda>a. a)) (scatter_opt ?n ?idx wx),
                 map (case_option 0 (\<lambda>a. a)) (scatter_opt ?n ?idx wy)]" by blast
  from broadcast_to_map [OF wx] obtain u where u: "broadcast_to (length ?idx) (rows ! 0) = Some u"
    and wxu: "wx = map sin u" by blast
  from broadcast_to_map [OF wy] u have wyu: "wy = map cos u" by auto
  have r0: "rows ! 0 = map (\<lambda>k. ps ! (k * ?d)) [0..<length ps div ?d]"
    by (rule reshape_T_row0 [OF rows])
  have dpos: "0 < ?d" using d13 by auto
  have "set u \<subseteq> set (rows ! 0)" by (rule broadcast_to_set [OF u])
  then have sub: "set u \<subseteq> (\<lambda>k. ps ! (k * ?d)) ` {..< length ps div ?d}"
    unfolding r0 by (simp add: atLeast0LessThan)
  have exact: "length ps = length ?idx * ?d \<longrightarrow> u = map (\<lambda>k. ps ! (k * ?d)) [0..<length ?idx]"
  proof
    assume l: "length ps = length ?idx * ?d"
    with dpos have "length ps div ?d = length ?idx" by simp
    with r0 have "rows ! 0 = map (\<lambda>k. ps ! (k * ?d)) [0..<length ?idx]" by simp
    moreover from this have "broadcast_to (length ?idx) (rows ! 0) = Some (rows ! 0)"
      by (simp add: broadcast_to_same)
    ultimately show "u = map (\<lambda>k. ps ! (k * ?d)) [0..<length ?idx]" using u by simp
  qed
  from broadcast_to_length [OF u] sub exact inb tt wxu wyu show ?thesis
    by (intro exI [of _ u]) (simp add: scatter_opt_map)
qed

lemma angle_demo: "get_patch_flow demo_env angle_solver [0] = Inr [[0, 0, 0], [0, 1, 0]]"
proof -
  have f: "\<not> is_poisson_model angle_solver" "is_angle_model angle_solver"
    "n_parameter_dim angle_solver = 1"
    "n_patch angle_solver = 3" "estimate_indices angle_solver = [1]"
    "patch_image_size angle_solver = (1, 3)"
    by (simp_all add: angle_solver_def demo_solver_def n_patch_def)
  have a: "reshape_T (Suc 0) [0] = Inr [[0]]" by code_simp
  have b: "index_add (replicate 3 0) [Suc 0] [0] = Inr [0, 0, 0]"
          "index_add (replicate 3 0) [Suc 0] [1] = Inr [0, 1, 0]" by code_simp+
  have c: "reshape_grid 2 (Suc 0, 3) [[0, 0, 0], [0, 1, 0]] = Inr [[0, 0, 0], [0, 1, 0]]"
    by code_simp
  show ?thesis
    by (simp add: get_patch_flow_def bind_err_def assert_that_def f a b c)
qed

text \<open>
  C6. In the angle model the decoded velocity of an active patch is
  \<open>(vx, vy) = (sin \<theta>, cos \<theta>)\<close> for the angle \<open>\<theta>\<close> of a block of the parameter vector
  (entry 0 of the block), so \<open>vx\<^sup>2 + vy\<^sup>2 = 1\<close>; when the active indices are distinct
  and the vector holds one block per active patch, patch \<open>estimate_indices[j]\<close> gets the
  angle of block \<open>j\<close>. Doubles are taken as reals, where the identity is exact.
\<close>

theorem angle_model_unit_velocity:
  assumes na: "\<not> is_poisson_model s" and an: "is_angle_model s"
    and t: "get_patch_flow env s ps = Inr t"
    and i: "i \<in> set (estimate_indices s)"
  shows "(\<exists>k < length ps div n_parameter_dim s.
            t ! 0 ! i = sin (ps ! (k * n_parameter_dim s)) \<and>
            t ! 1 ! i = cos (ps ! (k * n_parameter_dim s)))
         \<and> (t ! 0 ! i)\<^sup>2 + (t ! 1 ! i)\<^sup>2 = 1
         \<and> (distinct (estimate_indices s) \<and>
            length ps = length (estimate_indices s) * n_parameter_dim s
            \<longrightarrow> (\<forall>j < length (estimate_indices s).
                   t ! 0 ! (estimate_indices s ! j) = sin (ps ! (j * n_parameter_dim s)) \<and>
                   t ! 1 ! (estimate_indices s ! j) = cos (ps ! (j * n_parameter_dim s))))"
proof -
  let ?d = "n_parameter_dim s" and ?idx = "estimate_indices s" and ?n = "n_patch s"
  from angle_channels [OF na an t] obtain \<theta>s where len: "length \<theta>s = length ?idx"
    and sub: "set \<theta>s \<subseteq> (\<lambda>k. ps ! (k * ?d)) ` {..< length ps div ?d}"
    and exact: "length ps = length ?idx * ?d \<longrightarrow> \<theta>s = map (\<lambda>k. ps ! (k * ?d)) [0..<length ?idx]"
    and inb: "\<forall>i \<in> set ?idx. i < ?n"
    and tt: "t = [map (case_option 0 (\<lambda>a. a)) (map (map_option sin) (scatter_opt ?n ?idx \<theta>s)),
                 map (case_option 0 (\<lambda>a. a)) (map (map_option cos) (scatter_opt ?n ?idx \<theta>s))]"
    by blast
  from i inb have il: "i < ?n" by simp
  from scatter_opt_active [OF i il len] obtain a where a: "a \<in> set \<theta>s"
    and sa: "scatter_opt ?n ?idx \<theta>s ! i = Some a" by blast
  have ch: "t ! 0 ! i = sin a" "t ! 1 ! i = cos a"
    using il sa by (simp_all add: tt scatter_opt_length)
  from a sub obtain k where k: "k < length ps div ?d" "a = ps ! (k * ?d)" by auto
  have one: "\<exists>k < length ps div ?d. t ! 0 ! i = sin (ps ! (k * ?d)) \<and> t ! 1 ! i = cos (ps ! (k * ?d))"
    using k ch by auto
  have two: "(t ! 0 ! i)\<^sup>2 + (t ! 1 ! i)\<^sup>2 = 1"
    unfolding ch by simp
  have three: "distinct ?idx \<and> length ps = length ?idx * ?d
      \<longrightarrow> (\<forall>j < length ?idx. t ! 0 ! (?idx ! j) = sin (ps ! (j * ?d)) \<and>
                               t ! 1 ! (?idx ! j) = cos (ps ! (j * ?d)))"
  proof (intro impI allI)
    fix j assume h: "distinct ?idx \<and> length ps = length ?idx * ?d" and j: "j < length ?idx"
    from j inb have jn: "?idx ! j < ?n" by simp
    from h exact have th: "\<theta>s = map (\<lambda>k. ps ! (k * ?d)) [0..<length ?idx]" by simp
    from h j len jn have "scatter_opt ?n ?idx \<theta>s ! (?idx ! j) = Some (\<theta>s ! j)"
      by (intro scatter_opt_distinct) simp_all
    moreover have "\<theta>s ! j = ps ! (j * ?d)" using j by (simp add: th)
    ultimately show "t ! 0 ! (?idx ! j) = sin (ps ! (j * ?d)) \<and> t ! 1 ! (?idx ! j) = cos (ps ! (j * ?d))"
      using jn by (simp add: tt scatter_opt_length)
  qed
  from one two three show ?thesis by blast
qed

text \<open>The instance of the sample grid with the angle 0 at patch 1: the velocity is \<open>(0, 1)\<close>.\<close>

theorem angle_model_unit_velocity_witness:
  "\<not> is_poisson_model angle_solver \<and> is_angle_model angle_solver \<and>
   get_patch_flow demo_env angle_solver [0] = Inr [[0, 0, 0], [0, 1, 0]] \<and>
   1 \<in> set (estimate_indices angle_solver) \<and>
   ([[0, 0, 0], [0, 1, 0]] ! 0 ! 1)\<^sup>2 + ([[0, 0, 0], [0, 1, 0 :: real]] ! 1 ! 1)\<^sup>2 = (1 :: real)"
proof -
  have f: "\<not> is_poisson_model angle_solver" "is_angle_model angle_solver"
    "1 \<in> set (estimate_indices angle_solver)"
    by (simp_all add: angle_solver_def demo_solver_def)
  from angle_model_unit_velocity [OF f(1,2) angle_demo f(3)] f angle_demo
  show ?thesis by blast
qed


subsection \<open>The scatter into the patch grid\<close>


lemma velocity_demo:
  "get_patch_flow demo_env velocity_solver [3, 4] = Inr [[0, 3, 0], [0, 4, 0]]"
proof -
  have f: "\<not> is_poisson_model velocity_solver" "\<not> is_angle_model velocity_solver"
    "n_parameter_dim velocity_solver = 2"
    "n_patch velocity_solver = 3" "estimate_indices velocity_solver = [1]"
    "patch_image_size velocity_solver = (1, 3)"
    by (simp_all add: velocity_solver_def demo_solver_def n_patch_def)
  have a: "reshape_T 2 [3, 4] = Inr [[3], [4]]" by code_simp
  have b: "index_add (replicate 3 0) [Suc 0] [3] = Inr [0, 3, 0]"
          "index_add (replicate 3 0) [Suc 0] [4] = Inr [0, 4, 0]" by code_simp+
  have c: "reshape_grid 2 (Suc 0, 3) [[0, 3, 0], [0, 4, 0]] = Inr [[0, 3, 0], [0, 4, 0]]"
    by code_simp
  show ?thesis
    by (simp add: get_patch_flow_def bind_err_def assert_that_def f a b c)
qed

lemma translation_demo:
  "get_patch_translation warp_solver [3, 4, 5, 6] = Inr [[0, 5, 0], [0, 6, 0]]"
  by code_simp

lemma poisson_demo: "get_patch_poisson poisson_solver [8] = Inr [[0, 8, 0]]"
  by code_simp

lemma poisson_flow_demo:
  "get_patch_flow demo_env poisson_solver [8] = Inr [[2, 0, - 2], [0, 0, 0]]"
proof -
  have f: "is_poisson_model poisson_solver" "n_parameter_dim poisson_solver = 1"
    "n_patch poisson_solver = 3" "estimate_indices poisson_solver = [1]"
    "patch_image_size poisson_solver = (1, 3)"
    by (simp_all add: poisson_solver_def demo_solver_def n_patch_def)
  have a: "reshape_T (Suc 0) [8] = Inr [[8]]" by code_simp
  have b: "index_put_rows (zeros (Suc 0) 3) [Suc 0] [8] = Inr [[0, 8, 0]]" by code_simp
  have c: "reshape_grid (Suc 0) (Suc 0, 3) [[0, 8, 0]] = Inr [[0, 8, 0]]" by code_simp
  have d: "map (map (\<lambda>v. v / 8)) (SobelTorch demo_env (Suc 0, 3) [[0, 8, 0]]) =
           [[2, 0, - 2], [0, 0, 0]]"
    by code_simp
  show ?thesis
    by (simp add: get_patch_flow_def bind_err_def assert_that_def poisson_to_flow_def f a b c d)
qed

text \<open>
  C4, as the code has it. At a patch index that is not in the active patch set, the
  translation of \<open>_get_patch_translation\<close>, the intensity of \<open>_get_patch_poisson\<close> and,
  outside the Poisson model, the flow of \<open>_get_patch_flow\<close> are exactly 0. In the Poisson
  model \<open>_get_patch_flow\<close> scatters the intensity into a grid that is 0 at such an index
  and returns \<open>poisson_to_flow\<close> of that grid, the Sobel derivative divided by 8.
\<close>

theorem scatter_zero_outside_active:
  assumes i: "i < n_patch s" and out: "i \<notin> set (estimate_indices s)"
  shows "(\<not> is_poisson_model s \<and> get_patch_flow env s ps = Inr t \<longrightarrow>
            length t = 2 \<and> length (t ! 0) = n_patch s \<and> length (t ! 1) = n_patch s \<and>
            t ! 0 ! i = 0 \<and> t ! 1 ! i = 0)
       \<and> (get_patch_translation s ps = Inr t \<longrightarrow>
            length t = 2 \<and> length (t ! 0) = n_patch s \<and> length (t ! 1) = n_patch s \<and>
            t ! 0 ! i = 0 \<and> t ! 1 ! i = 0)
       \<and> (get_patch_poisson s ps = Inr t \<longrightarrow>
            length t = 1 \<and> length (t ! 0) = n_patch s \<and> t ! 0 ! i = 0)
       \<and> (is_poisson_model s \<and> get_patch_flow env s ps = Inr t \<longrightarrow>
            (\<exists>grid. t = poisson_to_flow env s grid \<and> length grid = n_parameter_dim s \<and>
               (\<forall>k < n_parameter_dim s. length (grid ! k) = n_patch s \<and> grid ! k ! i = 0)))"
proof (intro conjI impI)
  assume h: "is_poisson_model s \<and> get_patch_flow env s ps = Inr t"
  then obtain grid where "t = poisson_to_flow env s grid" "length grid = n_parameter_dim s"
    "\<forall>k < n_parameter_dim s. length (grid ! k) = n_patch s \<and>
       (\<forall>i. i < n_patch s \<and> i \<notin> set (estimate_indices s) \<longrightarrow> grid ! k ! i = 0)"
    using get_patch_flow_poisson_scatter [of s env ps t] by blast
  with i out show "\<exists>grid. t = poisson_to_flow env s grid \<and> length grid = n_parameter_dim s \<and>
      (\<forall>k < n_parameter_dim s. length (grid ! k) = n_patch s \<and> grid ! k ! i = 0)"
    by blast
qed (use i out get_patch_flow_plain_inactive [of s env ps t i]
       get_patch_translation_inactive [of s ps t i] get_patch_poisson_inactive [of s ps t i]
     in simp_all)

text \<open>
  The sample grid, patch 0 inactive: the plain velocity \<open>(3, 4)\<close>, the translation
  \<open>(5, 6)\<close> and the intensity 8 of patch 1 leave 0 at patch 0.
\<close>

theorem scatter_zero_outside_active_witness:
  "0 < n_patch velocity_solver \<and> 0 \<notin> set (estimate_indices velocity_solver) \<and>
   \<not> is_poisson_model velocity_solver \<and>
   get_patch_flow demo_env velocity_solver [3, 4] = Inr [[0, 3, 0], [0, 4, 0]] \<and>
   [[0, 3, 0], [0, 4, 0 :: real]] ! 0 ! 0 = 0 \<and> [[0, 3, 0], [0, 4, 0 :: real]] ! 1 ! 0 = 0 \<and>
   0 < n_patch warp_solver \<and> 0 \<notin> set (estimate_indices warp_solver) \<and>
   get_patch_translation warp_solver [3, 4, 5, 6] = Inr [[0, 5, 0], [0, 6, 0]] \<and>
   [[0, 5, 0], [0, 6, 0 :: real]] ! 0 ! 0 = 0 \<and> [[0, 5, 0], [0, 6, 0 :: real]] ! 1 ! 0 = 0 \<and>
   0 < n_patch poisson_solver \<and> 0 \<notin> set (estimate_indices poisson_solver) \<and>
   is_poisson_model poisson_solver \<and>
   get_patch_poisson poisson_solver [8] = Inr [[0, 8, 0]] \<and> [[0, 8, 0 :: real]] ! 0 ! 0 = 0 \<and>
   (\<exists>grid. get_patch_flow demo_env poisson_solver [8] = Inr (poisson_to_flow demo_env poisson_solver grid)
      \<and> grid ! 0 ! 0 = 0)"
proof -
  have v: "0 < n_patch velocity_solver" "0 \<notin> set (estimate_indices velocity_solver)"
    "\<not> is_poisson_model velocity_solver"
    by (simp_all add: velocity_solver_def demo_solver_def n_patch_def)
  have w: "0 < n_patch warp_solver" "0 \<notin> set (estimate_indices warp_solver)"
    by (simp_all add: warp_solver_def demo_solver_def n_patch_def)
  have p: "0 < n_patch poisson_solver" "0 \<notin> set (estimate_indices poisson_solver)"
    "is_poisson_model poisson_solver" "0 < n_parameter_dim poisson_solver"
    by (simp_all add: poisson_solver_def demo_solver_def n_patch_def)
  from scatter_zero_outside_active [OF v(1,2), of demo_env "[3, 4]" "[[0, 3, 0], [0, 4, 0]]"]
    v(3) velocity_demo
  have a: "[[0, 3, 0], [0, 4, 0 :: real]] ! 0 ! 0 = 0 \<and> [[0, 3, 0], [0, 4, 0 :: real]] ! 1 ! 0 = 0"
    by blast
  from scatter_zero_outside_active [OF w(1,2), of demo_env "[3, 4, 5, 6]" "[[0, 5, 0], [0, 6, 0]]"]
    translation_demo
  have b: "[[0, 5, 0], [0, 6, 0 :: real]] ! 0 ! 0 = 0 \<and> [[0, 5, 0], [0, 6, 0 :: real]] ! 1 ! 0 = 0"
    by blast
  from scatter_zero_outside_active [OF p(1,2), of demo_env "[8]" "[[0, 8, 0]]"] poisson_demo
  have c: "[[0, 8, 0 :: real]] ! 0 ! 0 = 0" by blast
  from scatter_zero_outside_active [OF p(1,2), of demo_env "[8]" "[[2, 0, - 2], [0, 0, 0]]"]
    p(3) poisson_flow_demo
  obtain grid where g: "[[2, 0, - 2], [0, 0, 0]] = poisson_to_flow demo_env poisson_solver grid"
    and z: "\<forall>k < n_parameter_dim poisson_solver. length (grid ! k) = n_patch poisson_solver \<and>
              grid ! k ! 0 = 0"
    by blast
  from z p(4) have "grid ! 0 ! 0 = 0" by blast
  with g poisson_flow_demo
  have d: "\<exists>grid. get_patch_flow demo_env poisson_solver [8] =
             Inr (poisson_to_flow demo_env poisson_solver grid) \<and> grid ! 0 ! 0 = 0"
    by auto
  from v w p a b c d velocity_demo translation_demo poisson_demo show ?thesis by blast
qed

text \<open>
  C4 as stated fails in the Poisson model: with the intensity 8 at the active patch 1 and
  the 3 by 3 Sobel kernels, the flow that \<open>_get_patch_flow\<close> returns is 2 at the inactive
  patch 0, the derivative of the step from 0 to 8.
\<close>

theorem poisson_flow_nonzero_outside_active:
  "0 < n_patch poisson_solver \<and> 0 \<notin> set (estimate_indices poisson_solver) \<and>
   get_patch_flow demo_env poisson_solver [8] = Inr [[2, 0, - 2], [0, 0, 0]] \<and>
   [[2, 0, - 2], [0, 0, 0 :: real]] ! 0 ! 0 \<noteq> 0"
  using poisson_flow_demo by (simp add: poisson_solver_def demo_solver_def n_patch_def)


subsection \<open>The assertions of the decoders\<close>


lemma bind_err_Inl_iff:
  "bind_err m f = Inl e \<longleftrightarrow> m = Inl e \<or> (\<exists>v. m = Inr v \<and> f v = Inl e)"
  by (cases m) (simp_all add: bind_err_def)

lemma assert_that_Inl: "assert_that b = Inl e \<longleftrightarrow> \<not> b \<and> e = AssertionError"
  by (auto simp: assert_that_def)

lemma index_add_no_assert: "index_add row idx v \<noteq> Inl AssertionError"
  by (simp add: index_add_def split: option.splits)

lemma index_put_no_assert: "index_put row idx v \<noteq> Inl AssertionError"
  by (simp add: index_put_def split: option.splits)

lemma index_put_rows_no_assert: "index_put_rows rows idx v \<noteq> Inl AssertionError"
  by (induction rows) (auto simp: bind_err_Inl_iff index_put_no_assert)

lemma reshape_grid_no_assert: "reshape_grid c hw t \<noteq> Inl AssertionError"
  by (simp add: reshape_grid_def Let_def)

lemma reshape_T_ok: "0 < d \<Longrightarrow> d dvd length ps \<Longrightarrow> \<exists>rows. reshape_T d ps = Inr rows"
  by (simp add: reshape_T_Inr)

lemma scatter_pair_no_assert:
  "bind_err (index_add r0 idx v_x) (\<lambda>row0.
   bind_err (index_add r1 idx v_y) (\<lambda>row1. reshape_grid c hw [row0, row1])) \<noteq> Inl AssertionError"
  by (simp add: bind_err_Inl_iff index_add_no_assert reshape_grid_no_assert)

lemma get_patch_flow_assert:
  assumes "0 < n_parameter_dim s" "n_parameter_dim s dvd length ps"
  shows "get_patch_flow env s ps = Inl AssertionError \<longleftrightarrow>
         \<not> (if is_poisson_model s \<or> is_angle_model s then n_parameter_dim s \<in> {1, 3}
            else n_parameter_dim s \<in> {2, 4})"
proof -
  from reshape_T_ok [OF assms] obtain rows where r: "reshape_T (n_parameter_dim s) ps = Inr rows"
    by blast
  show ?thesis
    unfolding get_patch_flow_def r bind_err_simps
    by (simp add: bind_err_Inl_iff assert_that_Inl assert_that_Inr index_add_no_assert
        reshape_grid_no_assert index_put_rows_no_assert split: prod.splits)
qed

lemma get_patch_translation_assert:
  assumes "0 < n_parameter_dim s" "n_parameter_dim s dvd length ps"
  shows "get_patch_translation s ps = Inl AssertionError \<longleftrightarrow>
         \<not> (if is_poisson_model s \<or> is_angle_model s then n_parameter_dim s = 3
            else n_parameter_dim s = 4)"
proof -
  from reshape_T_ok [OF assms] obtain rows where r: "reshape_T (n_parameter_dim s) ps = Inr rows"
    by blast
  show ?thesis
    unfolding get_patch_translation_def r bind_err_simps
    by (simp add: bind_err_Inl_iff assert_that_Inl assert_that_Inr index_add_no_assert
        reshape_grid_no_assert split: prod.splits)
qed

lemma get_patch_poisson_assert:
  assumes "0 < n_parameter_dim s" "n_parameter_dim s dvd length ps"
  shows "get_patch_poisson s ps = Inl AssertionError \<longleftrightarrow>
         \<not> (is_poisson_model s \<and> n_parameter_dim s \<in> {1, 3})"
proof -
  from reshape_T_ok [OF assms] obtain rows where r: "reshape_T (n_parameter_dim s) ps = Inr rows"
    by blast
  show ?thesis
    unfolding get_patch_poisson_def r bind_err_simps
    by (auto simp: bind_err_Inl_iff assert_that_Inl assert_that_Inr index_add_no_assert
        reshape_grid_no_assert)
qed

lemma get_patch_flow_fails:
  assumes "\<not> (if is_poisson_model s \<or> is_angle_model s then n_parameter_dim s \<in> {1, 3}
              else n_parameter_dim s \<in> {2, 4})"
  shows "\<exists>e. get_patch_flow env s ps = Inl e"
proof (cases "get_patch_flow env s ps")
  case (Inl e) then show ?thesis by blast
next
  case (Inr t)
  with assms show ?thesis
    by (auto simp: get_patch_flow_def bind_err_Inr_iff assert_that_Inr split: if_splits)
qed

lemma get_patch_translation_fails:
  assumes "\<not> (if is_poisson_model s \<or> is_angle_model s then n_parameter_dim s = 3
              else n_parameter_dim s = 4)"
  shows "\<exists>e. get_patch_translation s ps = Inl e"
proof (cases "get_patch_translation s ps")
  case (Inl e) then show ?thesis by blast
next
  case (Inr t)
  with assms show ?thesis
    by (auto simp: get_patch_translation_def bind_err_Inr_iff assert_that_Inr split: if_splits)
qed

lemma get_patch_poisson_fails:
  assumes "\<not> (is_poisson_model s \<and> n_parameter_dim s \<in> {1, 3})"
  shows "\<exists>e. get_patch_poisson s ps = Inl e"
proof (cases "get_patch_poisson s ps")
  case (Inl e) then show ?thesis by blast
next
  case (Inr t)
  with assms show ?thesis
    by (auto simp: get_patch_poisson_def bind_err_Inr_iff assert_that_Inr split: if_splits)
qed

text \<open>
  C7. Every decoder asserts the block size for the model flags. The flow needs
  \<open>n_parameter_dim \<in> {1, 3}\<close> in the Poisson or the angle model and \<open>{2, 4}\<close> in the plain
  velocity model; the translation needs 3 in the Poisson or the angle model and 4 in the
  velocity model; the intensity needs the Poisson model and \<open>{1, 3}\<close>. With a mismatched
  combination no decoder returns; and when the parameter vector is made of blocks of
  \<open>n_parameter_dim > 0\<close> entries, so that the reshape before the assertion succeeds, the
  failure is the assertion, and the assertion fails for no other combination.
\<close>

theorem decode_asserts_dimension:
  "(\<not> (if is_poisson_model s \<or> is_angle_model s then n_parameter_dim s \<in> {1, 3}
        else n_parameter_dim s \<in> {2, 4})
      \<longrightarrow> (\<exists>e. get_patch_flow env s ps = Inl e))
   \<and> (\<not> (if is_poisson_model s \<or> is_angle_model s then n_parameter_dim s = 3
           else n_parameter_dim s = 4)
      \<longrightarrow> (\<exists>e. get_patch_translation s ps = Inl e))
   \<and> (\<not> (is_poisson_model s \<and> n_parameter_dim s \<in> {1, 3})
      \<longrightarrow> (\<exists>e. get_patch_poisson s ps = Inl e))
   \<and> (0 < n_parameter_dim s \<and> n_parameter_dim s dvd length ps \<longrightarrow>
        (get_patch_flow env s ps = Inl AssertionError \<longleftrightarrow>
           \<not> (if is_poisson_model s \<or> is_angle_model s then n_parameter_dim s \<in> {1, 3}
              else n_parameter_dim s \<in> {2, 4})) \<and>
        (get_patch_translation s ps = Inl AssertionError \<longleftrightarrow>
           \<not> (if is_poisson_model s \<or> is_angle_model s then n_parameter_dim s = 3
              else n_parameter_dim s = 4)) \<and>
        (get_patch_poisson s ps = Inl AssertionError \<longleftrightarrow>
           \<not> (is_poisson_model s \<and> n_parameter_dim s \<in> {1, 3})))"
  using get_patch_flow_fails [of s env ps] get_patch_translation_fails [of s ps]
    get_patch_poisson_fails [of s ps] get_patch_flow_assert [of s ps env]
    get_patch_translation_assert [of s ps] get_patch_poisson_assert [of s ps]
  by blast

text \<open>
  The plain velocity model with blocks of 2 entries: its flow passes the assertion, its
  translation (which needs 4) and its intensity (which needs the Poisson model) fail
  theirs; so does the flow of the Poisson model with blocks of 2 entries.
\<close>

theorem decode_asserts_dimension_witness:
  "0 < n_parameter_dim velocity_solver \<and> n_parameter_dim velocity_solver dvd length [3, 4 :: real] \<and>
   \<not> is_poisson_model velocity_solver \<and> \<not> is_angle_model velocity_solver \<and>
   n_parameter_dim velocity_solver \<noteq> 4 \<and>
   get_patch_flow demo_env velocity_solver [3, 4] \<noteq> Inl AssertionError \<and>
   get_patch_translation velocity_solver [3, 4] = Inl AssertionError \<and>
   get_patch_poisson velocity_solver [3, 4] = Inl AssertionError \<and>
   get_patch_flow demo_env (poisson_solver\<lparr>n_parameter_dim := 2\<rparr>) [3, 4] = Inl AssertionError"
proof -
  have f: "0 < n_parameter_dim velocity_solver" "n_parameter_dim velocity_solver dvd length [3, 4 :: real]"
    "\<not> is_poisson_model velocity_solver" "\<not> is_angle_model velocity_solver"
    "n_parameter_dim velocity_solver \<noteq> 4" "n_parameter_dim velocity_solver \<in> {2, 4}"
    by (simp_all add: velocity_solver_def demo_solver_def)
  have g: "0 < n_parameter_dim (poisson_solver\<lparr>n_parameter_dim := 2\<rparr>)"
    "n_parameter_dim (poisson_solver\<lparr>n_parameter_dim := 2\<rparr>) dvd length [3, 4 :: real]"
    "is_poisson_model (poisson_solver\<lparr>n_parameter_dim := 2\<rparr>)"
    "n_parameter_dim (poisson_solver\<lparr>n_parameter_dim := 2\<rparr>) \<notin> {1, 3}"
    by (simp_all add: poisson_solver_def demo_solver_def)
  from decode_asserts_dimension [of velocity_solver demo_env "[3, 4]"] f
  have a: "get_patch_flow demo_env velocity_solver [3, 4] \<noteq> Inl AssertionError \<and>
           get_patch_translation velocity_solver [3, 4] = Inl AssertionError \<and>
           get_patch_poisson velocity_solver [3, 4] = Inl AssertionError"
    by simp
  from decode_asserts_dimension [of "poisson_solver\<lparr>n_parameter_dim := 2\<rparr>" demo_env "[3, 4]"] g
  have b: "get_patch_flow demo_env (poisson_solver\<lparr>n_parameter_dim := 2\<rparr>) [3, 4] = Inl AssertionError"
    by simp
  from f a b show ?thesis by blast
qed


subsection \<open>The decoders return on well-formed input\<close>


lemma index_add_returns:
  assumes "\<forall>i \<in> set idx. i < length row" "length v = length idx"
  shows "\<exists>r. index_add row idx v = Inr r \<and> length r = length row"
proof -
  from assms(1) have nb: "\<not> (\<exists>i \<in> set idx. length row \<le> i)" by auto
  from assms(2) have b: "broadcast_to (length idx) v = Some v" by (simp add: broadcast_to_same)
  show ?thesis
    by (simp add: index_add_def nb b del: bex_simps)
       (rule fold_upd_length [of "\<lambda>i a. row ! i + a"])
qed

lemma index_put_returns:
  assumes "\<forall>i \<in> set idx. i < length row" "length v = length idx"
  shows "\<exists>r. index_put row idx v = Inr r \<and> length r = length row"
proof -
  from assms(1) have nb: "\<not> (\<exists>i \<in> set idx. length row \<le> i)" by auto
  from assms(2) have b: "broadcast_to (length idx) v = Some v" by (simp add: broadcast_to_same)
  show ?thesis
    by (simp add: index_put_def nb b del: bex_simps)
       (rule fold_upd_length [of "\<lambda>i a. a"])
qed

lemma index_put_rows_returns:
  assumes "\<forall>row \<in> set rows. \<forall>i \<in> set idx. i < length row" "length v = length idx"
  shows "\<exists>g. index_put_rows rows idx v = Inr g"
  using assms
proof (induction rows)
  case Nil then show ?case by simp
next
  case (Cons row rows)
  from index_put_returns [of idx row v] Cons.prems obtain r where "index_put row idx v = Inr r"
    by auto
  moreover from Cons obtain g where "index_put_rows rows idx v = Inr g" by auto
  ultimately show ?case by (simp add: bind_err_simps)
qed

lemma reshape_T_rows:
  assumes "0 < d" "length ps = k * d" "j < d"
  shows "\<exists>rows. reshape_T d ps = Inr rows \<and> length rows = d \<and> length (rows ! j) = k"
  using assms by (simp add: reshape_T_def)

lemma scatter_pair_returns:
  assumes "\<forall>i \<in> set idx. i < n" "length v_x = length idx" "length v_y = length idx"
    "n = fst hw * snd hw"
  shows "\<exists>t. bind_err (index_add (replicate n 0) idx v_x) (\<lambda>row0.
              bind_err (index_add (replicate n 0) idx v_y) (\<lambda>row1.
              reshape_grid 2 hw [row0, row1])) = Inr t \<and>
             length t = 2 \<and> (\<forall>row \<in> set t. length row = n)"
proof -
  from index_add_returns [of idx "replicate n 0" v_x] assms obtain r0 where
    r0: "index_add (replicate n 0) idx v_x = Inr r0" "length r0 = n" by auto
  from index_add_returns [of idx "replicate n 0" v_y] assms obtain r1 where
    r1: "index_add (replicate n 0) idx v_y = Inr r1" "length r1 = n" by auto
  have "reshape_grid 2 hw [r0, r1] = Inr [r0, r1]"
    using reshape_grid_rows [of "[r0, r1]" 2 n hw] r0(2) r1(2) assms(4) by simp
  with r0 r1 show ?thesis by (simp add: bind_err_simps)
qed

lemma get_patch_flow_returns:
  assumes np: "\<not> is_poisson_model s"
    and dims: "if is_angle_model s then n_parameter_dim s \<in> {1, 3} else n_parameter_dim s \<in> {2, 4}"
    and len: "length ps = length (estimate_indices s) * n_parameter_dim s"
    and inb: "\<forall>i \<in> set (estimate_indices s). i < n_patch s"
    and grid: "n_patch s = fst (patch_image_size s) * snd (patch_image_size s)"
  shows "\<exists>t. get_patch_flow env s ps = Inr t \<and> length t = 2 \<and>
             (\<forall>row \<in> set t. length row = n_patch s)"
proof (cases "is_angle_model s")
  case True
  with dims have d: "0 < n_parameter_dim s" "n_parameter_dim s \<in> {1, 3}" by auto
  from reshape_T_rows [OF d(1) len d(1)] obtain rows where
    rows: "reshape_T (n_parameter_dim s) ps = Inr rows"
    and l0: "length (rows ! 0) = length (estimate_indices s)" by blast
  from scatter_pair_returns [OF inb _ _ grid, of "map sin (rows ! 0)" "map cos (rows ! 0)"] l0
  show ?thesis
    using np True d(2) by (simp add: get_patch_flow_def rows bind_err_simps assert_that_def)
next
  case False
  with dims have d: "0 < n_parameter_dim s" "1 < n_parameter_dim s" "n_parameter_dim s \<in> {2, 4}"
    by auto
  from reshape_T_rows [OF d(1) len d(1)] obtain rows where
    rows: "reshape_T (n_parameter_dim s) ps = Inr rows"
    and l0: "length (rows ! 0) = length (estimate_indices s)" by blast
  from reshape_T_rows [OF d(1) len d(2)] rows
  have l1: "length (rows ! 1) = length (estimate_indices s)" by auto
  from scatter_pair_returns [OF inb l0 l1 grid]
  show ?thesis
    using np False d(3) by (simp add: get_patch_flow_def rows bind_err_simps assert_that_def)
qed

lemma get_patch_flow_poisson_returns:
  assumes p: "is_poisson_model s"
    and dims: "n_parameter_dim s \<in> {1, 3}"
    and len: "length ps = length (estimate_indices s) * n_parameter_dim s"
    and inb: "\<forall>i \<in> set (estimate_indices s). i < n_patch s"
    and grid: "n_patch s = fst (patch_image_size s) * snd (patch_image_size s)"
  shows "\<exists>g. get_patch_flow env s ps = Inr (poisson_to_flow env s g)"
proof -
  from dims have d: "0 < n_parameter_dim s" by auto
  from reshape_T_rows [OF d len d] obtain rows where
    rows: "reshape_T (n_parameter_dim s) ps = Inr rows"
    and l0: "length (rows ! 0) = length (estimate_indices s)" by blast
  have "\<forall>row \<in> set (zeros (n_parameter_dim s) (n_patch s)).
          \<forall>i \<in> set (estimate_indices s). i < length row"
    using inb by (simp add: zeros_def)
  from index_put_rows_returns [OF this l0] obtain g where
    g: "index_put_rows (zeros (n_parameter_dim s) (n_patch s)) (estimate_indices s) (rows ! 0) = Inr g"
    by blast
  from index_put_rows_Inr [OF g] have lg: "length g = n_parameter_dim s"
    and lr: "\<forall>k < n_parameter_dim s. length (g ! k) = n_patch s"
    by (simp_all add: zeros_def)
  have "\<forall>row \<in> set g. length row = n_patch s"
    using lg lr by (auto simp: in_set_conv_nth)
  from reshape_grid_rows [OF lg this, of "patch_image_size s"] grid
  have "reshape_grid (n_parameter_dim s) (patch_image_size s) g = Inr g" by simp
  with p dims rows g have "get_patch_flow env s ps = Inr (poisson_to_flow env s g)"
    by (simp add: get_patch_flow_def bind_err_simps assert_that_def)
  then show ?thesis by blast
qed

lemma extrapolate_returns:
  assumes dims: "if is_poisson_model s
                 then n_parameter_dim s \<in> {1, 3} \<and>
                      (\<forall>g. length (concat (SobelTorch env (patch_image_size s) g)) =
                            2 * (fst (patch_image_size s) * snd (patch_image_size s)))
                 else if is_angle_model s then n_parameter_dim s \<in> {1, 3}
                 else n_parameter_dim s \<in> {2, 4}"
    and len: "length ps = length (estimate_indices s) * n_parameter_dim s"
    and inb: "\<forall>i \<in> set (estimate_indices s). i < n_patch s"
    and grid: "n_patch s = fst (patch_image_size s) * snd (patch_image_size s)"
  shows "\<exists>flow. extrapolate_dense_flow_from_estimates env s ps = Inr flow"
proof (cases "is_poisson_model s")
  case True
  with dims have d: "n_parameter_dim s \<in> {1, 3}"
    and sob: "\<forall>g. length (concat (SobelTorch env (patch_image_size s) g)) =
                 2 * (fst (patch_image_size s) * snd (patch_image_size s))" by simp_all
  from get_patch_flow_poisson_returns [OF True d len inb grid] obtain g where
    g: "get_patch_flow env s ps = Inr (poisson_to_flow env s g)" by blast
  have "length (concat (poisson_to_flow env s g)) =
        2 * (fst (patch_image_size s) * snd (patch_image_size s))"
    using sob by (simp add: poisson_to_flow_def length_concat comp_def)
  then have "\<exists>t. reshape_grid 2 (patch_image_size s) (poisson_to_flow env s g) = Inr t"
    by (simp add: reshape_grid_def Let_def)
  with g show ?thesis
    by (auto simp: extrapolate_dense_flow_from_estimates_def bind_err_simps)
next
  case False
  with dims have d: "if is_angle_model s then n_parameter_dim s \<in> {1, 3}
                     else n_parameter_dim s \<in> {2, 4}" by simp
  from get_patch_flow_returns [OF False d len inb grid] obtain t where
    t: "get_patch_flow env s ps = Inr t" "length t = 2" "\<forall>row \<in> set t. length row = n_patch s"
    by blast
  from reshape_grid_rows [OF t(2,3), of "patch_image_size s"] grid
  have "reshape_grid 2 (patch_image_size s) t = Inr t" by simp
  with t show ?thesis
    by (simp add: extrapolate_dense_flow_from_estimates_def bind_err_simps)
qed


subsection \<open>The forward prediction\<close>


lemma sum_squares_nonneg: "0 \<le> sum_list (map (\<lambda>v. v * v) (xs :: real list))"
  by (induction xs) auto

lemma sum_squares_zero: "\<forall>v \<in> set xs. v = 0 \<Longrightarrow> sum_list (map (\<lambda>v. v * v) (xs :: real list)) = 0"
  by (induction xs) auto

lemma linalg_norm_nonneg: "0 \<le> linalg_norm t"
  by (simp add: linalg_norm_def sum_squares_nonneg)

lemma linalg_norm_zero: "\<forall>row \<in> set t. \<forall>v \<in> set row. v = 0 \<Longrightarrow> linalg_norm t = 0"
  by (simp add: linalg_norm_def sum_squares_zero)

lemma map2_shape:
  "map length a = map length b \<Longrightarrow> map length (map2 (map2 f) a b) = map length a"
proof -
  assume h: "map length a = map length b"
  then have "length a = length b" by (metis length_map)
  then show ?thesis using h
    by (induction a b rule: list_induct2) auto
qed

lemma elementwise_same_shape:
  "map length a = map length b \<Longrightarrow> elementwise f a b = Inr (map2 (map2 f) a b)"
  by (simp add: elementwise_def)

lemma make_prediction_torch_Inr:
  "make_prediction_torch env s ps r w = Inr p \<longleftrightarrow>
     (\<exists>u. unnormalized_increment env s ps r w = Inr u \<and>
          p = map (map (\<lambda>v. v / (linalg_norm u + 0.0001))) u)"
  by (auto simp: make_prediction_torch_def bind_err_Inr_iff)

lemma make_prediction_torch_Inl:
  "make_prediction_torch env s ps r w = Inl e \<longleftrightarrow> unnormalized_increment env s ps r w = Inl e"
  by (cases "unnormalized_increment env s ps r w") (simp_all add: make_prediction_torch_def bind_err_def)

text \<open>
  C5. \<open>_make_prediction_torch\<close> returns the unnormalised increment (after the absolute value
  and the weights, where they apply) divided, entry by entry, by its own Euclidean norm plus
  \<open>0.0001\<close>, and fails only where the unnormalised increment fails. The divisor is at least
  \<open>0.0001\<close>, so the division is never by zero, and an increment of zeros gives the same
  zeros. Doubles are taken as reals.
\<close>

theorem prediction_normalized_by_norm_plus_eps:
  "(make_prediction_torch env s ps r w = Inr p \<longleftrightarrow>
      (\<exists>u. unnormalized_increment env s ps r w = Inr u \<and>
           p = map (map (\<lambda>v. v / (linalg_norm u + 0.0001))) u))
   \<and> (make_prediction_torch env s ps r w = Inl e \<longleftrightarrow>
        unnormalized_increment env s ps r w = Inl e)
   \<and> (unnormalized_increment env s ps r w = Inr u \<longrightarrow>
        0.0001 \<le> linalg_norm u + 0.0001 \<and> linalg_norm u + 0.0001 \<noteq> 0 \<and>
        linalg_norm u = sqrt (sum_list (map (\<lambda>v. v * v) (concat u))))
   \<and> (unnormalized_increment env s ps r w = Inr u \<and> (\<forall>row \<in> set u. \<forall>v \<in> set row. v = 0)
        \<longrightarrow> make_prediction_torch env s ps r w = Inr u)"
proof (intro conjI impI)
  show "make_prediction_torch env s ps r w = Inr p \<longleftrightarrow>
      (\<exists>u. unnormalized_increment env s ps r w = Inr u \<and>
           p = map (map (\<lambda>v. v / (linalg_norm u + 0.0001))) u)"
    by (rule make_prediction_torch_Inr)
  show "make_prediction_torch env s ps r w = Inl e \<longleftrightarrow>
        unnormalized_increment env s ps r w = Inl e"
    by (rule make_prediction_torch_Inl)
  show "0.0001 \<le> linalg_norm u + 0.0001" using linalg_norm_nonneg [of u] by simp
  show "linalg_norm u + 0.0001 \<noteq> 0" using linalg_norm_nonneg [of u] by simp
  show "linalg_norm u = sqrt (sum_list (map (\<lambda>v. v * v) (concat u)))"
    by (simp add: linalg_norm_def)
next
  assume h: "unnormalized_increment env s ps r w = Inr u \<and> (\<forall>row \<in> set u. \<forall>v \<in> set row. v = 0)"
  have rowid: "map (\<lambda>v. v / (linalg_norm u + 0.0001)) row = row" if "row \<in> set u" for row
  proof (rule map_idI)
    fix v assume "v \<in> set row"
    with h that have "v = 0" by blast
    then show "v / (linalg_norm u + 0.0001) = v" by simp
  qed
  have "map (map (\<lambda>v. v / (linalg_norm u + 0.0001))) u = u"
    by (rule map_idI) (rule rowid)
  with h show "make_prediction_torch env s ps r w = Inr u"
    by (simp add: make_prediction_torch_Inr)
qed



lemma channel_simps:
  "2 \<le> length t \<Longrightarrow> channel t 0 = Inr (t ! 0)"
  "2 \<le> length t \<Longrightarrow> channel t (Suc 0) = Inr (t ! Suc 0)"
  by (auto simp: channel_def)

lemma unnormalized_increment_stages:
  assumes flow: "extrapolate_dense_flow_from_estimates env s ps = Inr dense_flow"
    and two: "2 \<le> length dense_flow"
    and tr: "optimize_warp s \<longrightarrow>
               extrapolate_dense_translation_from_estimates env s ps = Inr translation"
    and fx: "flow_x = crop2 (xmin r) (xmax r) (ymin r) (ymax r) (dense_flow ! 0)"
    and fy: "flow_y = crop2 (xmin r) (xmax r) (ymin r) (ymax r) (dense_flow ! 1)"
    and gx: "gradient_x =
               (if optimize_warp s
                then warp_image_forward env
                       (crop2 (xmin r) (xmax r) (ymin r) (ymax r) (gradient_x_torch s))
                       (map (crop2 (xmin r) (xmax r) (ymin r) (ymax r)) translation)
                else crop2 (xmin r) (xmax r) (ymin r) (ymax r) (gradient_x_torch s))"
    and gy: "gradient_y =
               (if optimize_warp s
                then warp_image_forward env
                       (crop2 (xmin r) (xmax r) (ymin r) (ymax r) (gradient_y_torch s))
                       (map (crop2 (xmin r) (xmax r) (ymin r) (ymax r)) translation)
                else crop2 (xmin r) (xmax r) (ymin r) (ymax r) (gradient_y_torch s))"
    and sx: "map length gradient_x = map length flow_x"
    and sy: "map length gradient_y = map length flow_x"
    and sf: "map length flow_y = map length flow_x"
    and sw: "\<forall>w. weights = Some w \<longrightarrow> map length w = map length flow_x"
  shows "unnormalized_increment env s ps r weights =
           Inr (weight_stage weights (polarity_stage (no_polarity s)
                  (dot_stage flow_x gradient_x flow_y gradient_y)))"
proof -
  let ?c = "crop2 (xmin r) (xmax r) (ymin r) (ymax r)"
  have chans: "channel (map ?c dense_flow) 0 = Inr flow_x"
              "channel (map ?c dense_flow) (Suc 0) = Inr flow_y"
    using two by (auto simp: channel_def fx fy)
  have px: "elementwise (\<lambda>u v. u * v) flow_x gradient_x = Inr (map2 (map2 (\<lambda>u v. u * v)) flow_x gradient_x)"
    using sx by (simp add: elementwise_same_shape)
  have py: "elementwise (\<lambda>u v. u * v) flow_y gradient_y = Inr (map2 (map2 (\<lambda>u v. u * v)) flow_y gradient_y)"
    using sy sf by (simp add: elementwise_same_shape)
  have shx: "map length (map2 (map2 (\<lambda>u v. u * v)) flow_x gradient_x) = map length flow_x"
    by (rule map2_shape) (simp add: sx)
  have shy: "map length (map2 (map2 (\<lambda>u v. u * v)) flow_y gradient_y) = map length flow_x"
    using map2_shape [of flow_y gradient_y "\<lambda>u v. u * v"] sy sf by simp
  have sum: "elementwise (\<lambda>u v. u + v) (map2 (map2 (\<lambda>u v. u * v)) flow_x gradient_x)
               (map2 (map2 (\<lambda>u v. u * v)) flow_y gradient_y) =
             Inr (dot_stage flow_x gradient_x flow_y gradient_y)"
    using shx shy by (simp add: elementwise_same_shape dot_stage_def)
  have shd: "map length (dot_stage flow_x gradient_x flow_y gradient_y) = map length flow_x"
    unfolding dot_stage_def
    using map2_shape [of "map2 (map2 (\<lambda>u v. u * v)) flow_x gradient_x"
        "map2 (map2 (\<lambda>u v. u * v)) flow_y gradient_y" "\<lambda>u v. u + v"] shx shy
    by simp
  have shp: "map length (polarity_stage (no_polarity s) (dot_stage flow_x gradient_x flow_y gradient_y))
               = map length flow_x"
    using shd by (simp add: polarity_stage_def comp_def)
  have wts: "(case weights of
                None \<Rightarrow> Inr (polarity_stage (no_polarity s) (dot_stage flow_x gradient_x flow_y gradient_y))
              | Some w \<Rightarrow> elementwise (\<lambda>u v. u * v)
                  (polarity_stage (no_polarity s) (dot_stage flow_x gradient_x flow_y gradient_y)) w) =
             Inr (weight_stage weights (polarity_stage (no_polarity s)
                    (dot_stage flow_x gradient_x flow_y gradient_y)))"
    using sw shp by (cases weights) (simp_all add: weight_stage_def elementwise_same_shape)
  have pol: "(if no_polarity s then map (map abs) d else d) = polarity_stage (no_polarity s) d" for d
    by (simp add: polarity_stage_def)
  show ?thesis
  proof (cases "optimize_warp s")
    case True
    with tr have e: "extrapolate_dense_translation_from_estimates env s ps = Inr translation"
      by simp
    from True gx gy
    have g: "warp_image_forward env (?c (gradient_x_torch s)) (map ?c translation) = gradient_x"
            "warp_image_forward env (?c (gradient_y_torch s)) (map ?c translation) = gradient_y"
      by simp_all
    show ?thesis
      by (simp add: unnormalized_increment_def Let_def flow e True bind_err_simps g chans px py
          sum pol wts)
  next
    case False
    with gx gy
    have g: "?c (gradient_x_torch s) = gradient_x" "?c (gradient_y_torch s) = gradient_y"
      by simp_all
    show ?thesis
      by (simp add: unnormalized_increment_def Let_def flow False bind_err_simps g chans px py
          sum pol wts)
  qed
qed

text \<open>
  C8. The prediction is built in one fixed order: the product
  \<open>flow_x * gradient_x + flow_y * gradient_y\<close> at every pixel of the region of interest,
  with both gradient crops first warped forward by the translation when \<open>optimize_warp\<close>
  is set; then the absolute value if and only if \<open>no_polarity\<close> is set; then the product
  with the weights if and only if weights are supplied; and the division by the norm plus
  \<open>0.0001\<close> last. The operands are crops of one shape.
\<close>

theorem prediction_stage_order:
  assumes flow: "extrapolate_dense_flow_from_estimates env s ps = Inr dense_flow"
    and two: "2 \<le> length dense_flow"
    and tr: "optimize_warp s \<longrightarrow>
               extrapolate_dense_translation_from_estimates env s ps = Inr translation"
    and fx: "flow_x = crop2 (xmin r) (xmax r) (ymin r) (ymax r) (dense_flow ! 0)"
    and fy: "flow_y = crop2 (xmin r) (xmax r) (ymin r) (ymax r) (dense_flow ! 1)"
    and gx: "gradient_x =
               (if optimize_warp s
                then warp_image_forward env
                       (crop2 (xmin r) (xmax r) (ymin r) (ymax r) (gradient_x_torch s))
                       (map (crop2 (xmin r) (xmax r) (ymin r) (ymax r)) translation)
                else crop2 (xmin r) (xmax r) (ymin r) (ymax r) (gradient_x_torch s))"
    and gy: "gradient_y =
               (if optimize_warp s
                then warp_image_forward env
                       (crop2 (xmin r) (xmax r) (ymin r) (ymax r) (gradient_y_torch s))
                       (map (crop2 (xmin r) (xmax r) (ymin r) (ymax r)) translation)
                else crop2 (xmin r) (xmax r) (ymin r) (ymax r) (gradient_y_torch s))"
    and sx: "map length gradient_x = map length flow_x"
    and sy: "map length gradient_y = map length flow_x"
    and sf: "map length flow_y = map length flow_x"
    and sw: "\<forall>w. weights = Some w \<longrightarrow> map length w = map length flow_x"
  shows "make_prediction_torch env s ps r weights =
           Inr (normalize_stage (weight_stage weights (polarity_stage (no_polarity s)
                  (dot_stage flow_x gradient_x flow_y gradient_y))))"
  using unnormalized_increment_stages [OF assms]
  by (simp add: make_prediction_torch_def bind_err_simps normalize_stage_def)



lemma sqrt_100: "sqrt 100 = (10 :: real)"
proof -
  have "sqrt ((10 :: real)\<^sup>2) = 10" by (simp only: real_sqrt_abs abs_numeral)
  then show ?thesis by simp
qed

lemma polar_flow_demo:
  "extrapolate_dense_flow_from_estimates demo_env polar_solver [- 3, - 4] =
     Inr [[[0, - 3, 0]], [[0, - 4, 0]]]"
proof -
  have f: "\<not> is_poisson_model polar_solver" "\<not> is_angle_model polar_solver"
    "n_parameter_dim polar_solver = 2"
    "n_patch polar_solver = 3" "estimate_indices polar_solver = [1]"
    "patch_image_size polar_solver = (1, 3)"
    by (simp_all add: polar_solver_def velocity_solver_def demo_solver_def n_patch_def)
  have a: "reshape_T 2 [- 3, - 4] = Inr [[- 3], [- 4]]" by code_simp
  have b: "index_add (replicate 3 0) [Suc 0] [- 3] = Inr [0, - 3, 0]"
          "index_add (replicate 3 0) [Suc 0] [- 4] = Inr [0, - 4, 0]" by code_simp+
  have c: "reshape_grid 2 (Suc 0, 3) [[0, - 3, 0], [0, - 4, 0]] = Inr [[0, - 3, 0], [0, - 4, 0]]"
    by code_simp
  have g: "get_patch_flow demo_env polar_solver [- 3, - 4] = Inr [[0, - 3, 0], [0, - 4, 0]]"
    by (simp add: get_patch_flow_def bind_err_def assert_that_def f a b c)
  have i: "interpolate_dense_flow_from_patch_tensor demo_env = (\<lambda>hw t. map (\<lambda>c. [c]) t)"
    by (simp add: demo_env_def)
  show ?thesis
    by (simp add: extrapolate_dense_flow_from_estimates_def g bind_err_def f c i)
qed

lemma demo_crops:
  "crop2 (xmin demo_roi) (xmax demo_roi) (ymin demo_roi) (ymax demo_roi) [[0, - 3, 0]] = [[0, - 3]]"
  "crop2 (xmin demo_roi) (xmax demo_roi) (ymin demo_roi) (ymax demo_roi) [[0, - 4, 0]] = [[0, - 4]]"
  "crop2 (xmin demo_roi) (xmax demo_roi) (ymin demo_roi) (ymax demo_roi) [[0, 0, 0]] = [[0, 0]]"
  "crop2 (xmin demo_roi) (xmax demo_roi) (ymin demo_roi) (ymax demo_roi)
     (gradient_x_torch polar_solver) = [[1, 2]]"
  "crop2 (xmin demo_roi) (xmax demo_roi) (ymin demo_roi) (ymax demo_roi)
     (gradient_y_torch polar_solver) = [[0, 1]]"
  by code_simp+

lemma polar_unnormalized_demo:
  "unnormalized_increment demo_env polar_solver [- 3, - 4] demo_roi (Some demo_weights) =
     Inr [[0, - 10]]"
proof -
  have nw: "\<not> optimize_warp polar_solver" "no_polarity polar_solver"
    by (simp_all add: polar_solver_def velocity_solver_def demo_solver_def)
  have st: "weight_stage (Some demo_weights)
              (polarity_stage True (dot_stage [[0, - 3]] [[1, 2]] [[0, - 4]] [[0, 1]])) = [[0, - 10]]"
    by code_simp
  from unnormalized_increment_stages [of demo_env polar_solver "[- 3, - 4]"
      "[[[0, - 3, 0]], [[0, - 4, 0]]]" "[]" "[[0, - 3]]" demo_roi "[[0, - 4]]"
      "[[1, 2]]" "[[0, 1]]" "Some demo_weights", OF polar_flow_demo]
  show ?thesis
    by (simp add: nw demo_crops demo_weights_def st [unfolded demo_weights_def])
qed

lemma norm_demo: "linalg_norm [[0, - 10]] = 10"
  by (simp add: linalg_norm_def sqrt_100)

text \<open>
  The sample grid with the velocity \<open>(-3, -4)\<close> at patch 1, without polarity and with
  weights: the unnormalised increment is \<open>(0, -10)\<close>, of norm 10.
\<close>

theorem prediction_normalized_by_norm_plus_eps_witness:
  "unnormalized_increment demo_env polar_solver [- 3, - 4] demo_roi (Some demo_weights) =
     Inr [[0, - 10]] \<and>
   make_prediction_torch demo_env polar_solver [- 3, - 4] demo_roi (Some demo_weights) =
     Inr [[0, - 10 / (10 + 0.0001)]]"
proof -
  from prediction_normalized_by_norm_plus_eps [of demo_env polar_solver "[- 3, - 4]" demo_roi
      "Some demo_weights" "[[0, - 10 / (10 + 0.0001)]]" RuntimeError "[[0, - 10]]"]
    polar_unnormalized_demo
  show ?thesis by (simp add: norm_demo)
qed



lemma warp_flow_demo:
  "extrapolate_dense_flow_from_estimates demo_env warp_solver [- 3, - 4, 5, 6] =
     Inr [[[0, - 3, 0]], [[0, - 4, 0]]]"
proof -
  have f: "\<not> is_poisson_model warp_solver" "\<not> is_angle_model warp_solver"
    "n_parameter_dim warp_solver = 4"
    "n_patch warp_solver = 3" "estimate_indices warp_solver = [1]"
    "patch_image_size warp_solver = (1, 3)"
    by (simp_all add: warp_solver_def demo_solver_def n_patch_def)
  have a: "reshape_T 4 [- 3, - 4, 5, 6] = Inr [[- 3], [- 4], [5], [6]]" by code_simp
  have b: "index_add (replicate 3 0) [Suc 0] [- 3] = Inr [0, - 3, 0]"
          "index_add (replicate 3 0) [Suc 0] [- 4] = Inr [0, - 4, 0]" by code_simp+
  have c: "reshape_grid 2 (Suc 0, 3) [[0, - 3, 0], [0, - 4, 0]] = Inr [[0, - 3, 0], [0, - 4, 0]]"
    by code_simp
  have g: "get_patch_flow demo_env warp_solver [- 3, - 4, 5, 6] = Inr [[0, - 3, 0], [0, - 4, 0]]"
    by (simp add: get_patch_flow_def bind_err_def assert_that_def f a b c)
  have i: "interpolate_dense_flow_from_patch_tensor demo_env = (\<lambda>hw t. map (\<lambda>c. [c]) t)"
    by (simp add: demo_env_def)
  show ?thesis
    by (simp add: extrapolate_dense_flow_from_estimates_def g bind_err_def f c i)
qed

lemma warp_translation_demo:
  "extrapolate_dense_translation_from_estimates demo_env warp_solver [- 3, - 4, 5, 6] =
     Inr [[[0, 5, 0]], [[0, 6, 0]]]"
proof -
  have g: "get_patch_translation warp_solver [- 3, - 4, 5, 6] = Inr [[0, 5, 0], [0, 6, 0]]"
    by code_simp
  have i: "interpolate_dense_flow_from_patch_tensor demo_env = (\<lambda>hw t. map (\<lambda>c. [c]) t)"
    by (simp add: demo_env_def)
  show ?thesis
    by (simp add: extrapolate_dense_translation_from_estimates_def g bind_err_def i)
qed

lemma warp_crops:
  "crop2 (xmin demo_roi) (xmax demo_roi) (ymin demo_roi) (ymax demo_roi)
     (gradient_x_torch warp_solver) = [[1, 2]]"
  "crop2 (xmin demo_roi) (xmax demo_roi) (ymin demo_roi) (ymax demo_roi)
     (gradient_y_torch warp_solver) = [[0, 1]]"
  by code_simp+

text \<open>
  Two instances on the sample grid. Without polarity and with weights of both signs, the
  absolute value comes before the weights: the increment is \<open>(0, -10)\<close>, where the other
  order would give \<open>(0, 10)\<close>. With the warp and without weights, the gradients are warped
  before the product.
\<close>

theorem prediction_stage_order_witness:
  "make_prediction_torch demo_env polar_solver [- 3, - 4] demo_roi (Some demo_weights) =
     Inr (normalize_stage (weight_stage (Some demo_weights) (polarity_stage True
            (dot_stage [[0, - 3]] [[1, 2]] [[0, - 4]] [[0, 1]]))))
   \<and> weight_stage (Some demo_weights) (polarity_stage True
         (dot_stage [[0, - 3]] [[1, 2]] [[0, - 4]] [[0, 1]])) = [[0, - 10]]
   \<and> polarity_stage True (weight_stage (Some demo_weights)
         (dot_stage [[0, - 3]] [[1, 2]] [[0, - 4]] [[0, 1]])) = [[0, 10]]
   \<and> make_prediction_torch demo_env warp_solver [- 3, - 4, 5, 6] demo_roi None =
     Inr (normalize_stage (weight_stage None (polarity_stage False
            (dot_stage [[0, - 3]] [[1, 2]] [[0, - 4]] [[0, 1]]))))"
proof -
  have p: "\<not> optimize_warp polar_solver" "no_polarity polar_solver"
    by (simp_all add: polar_solver_def velocity_solver_def demo_solver_def)
  have w: "optimize_warp warp_solver" "\<not> no_polarity warp_solver"
    by (simp_all add: warp_solver_def demo_solver_def)
  have wi: "warp_image_forward demo_env = (\<lambda>img translation. img)"
    by (simp add: demo_env_def)
  from prediction_stage_order [of demo_env polar_solver "[- 3, - 4]"
      "[[[0, - 3, 0]], [[0, - 4, 0]]]" "[]" "[[0, - 3]]" demo_roi "[[0, - 4]]"
      "[[1, 2]]" "[[0, 1]]" "Some demo_weights", OF polar_flow_demo]
  have a: "make_prediction_torch demo_env polar_solver [- 3, - 4] demo_roi (Some demo_weights) =
     Inr (normalize_stage (weight_stage (Some demo_weights) (polarity_stage True
            (dot_stage [[0, - 3]] [[1, 2]] [[0, - 4]] [[0, 1]]))))"
    by (simp add: p demo_crops demo_weights_def)
  have b: "weight_stage (Some demo_weights) (polarity_stage True
         (dot_stage [[0, - 3]] [[1, 2]] [[0, - 4]] [[0, 1]])) = [[0, - 10]]"
    by code_simp
  have c: "polarity_stage True (weight_stage (Some demo_weights)
         (dot_stage [[0, - 3]] [[1, 2]] [[0, - 4]] [[0, 1]])) = [[0, 10]]"
    by code_simp
  from prediction_stage_order [of demo_env warp_solver "[- 3, - 4, 5, 6]"
      "[[[0, - 3, 0]], [[0, - 4, 0]]]" "[[[0, 5, 0]], [[0, 6, 0]]]" "[[0, - 3]]" demo_roi
      "[[0, - 4]]" "[[1, 2]]" "[[0, 1]]" None, OF warp_flow_demo]
  have d: "make_prediction_torch demo_env warp_solver [- 3, - 4, 5, 6] demo_roi None =
     Inr (normalize_stage (weight_stage None (polarity_stage False
            (dot_stage [[0, - 3]] [[1, 2]] [[0, - 4]] [[0, 1]]))))"
    by (simp add: w warp_translation_demo demo_crops warp_crops wi)
  from a b c d show ?thesis by blast
qed


subsection \<open>The optimisation loop\<close>


lemma loop_body_raise:
  "obj it (heap st (x0 st)) = Inl e \<Longrightarrow> loop_body env obj it st = Inl e"
  by (simp add: loop_body_def Let_def bind_err_simps)

lemma loop_body_break:
  assumes "obj it (heap st (x0 st)) = Inr l" "backward env it (heap st (x0 st)) = None"
  shows "loop_body env obj it st =
           Inr (True, if scalar_less l (min_loss st)
                      then st\<lparr>grad := None, best_x := x0 st, min_loss := l, best_it := it\<rparr>
                      else st\<lparr>grad := None\<rparr>)"
  using assms by (simp add: loop_body_def Let_def bind_err_simps)

lemma loop_body_step:
  assumes "obj it (heap st (x0 st)) = Inr l" "backward env it (heap st (x0 st)) = Some g"
  shows "loop_body env obj it st =
           Inr (False,
             (if scalar_less l (min_loss st)
              then st\<lparr>grad := None, best_x := x0 st, min_loss := l, best_it := it\<rparr>
              else st\<lparr>grad := None\<rparr>)
             \<lparr>grad := Some g,
              heap := (heap st)(x0 st := snd (optimizer_step env (opt st) (heap st (x0 st)) g)),
              opt := scheduler_step env (fst (optimizer_step env (opt st) (heap st (x0 st)) g))\<rparr>)"
  using assms by (simp add: loop_body_def Let_def bind_err_simps case_prod_beta)

lemma loop_body_cases:
  assumes "loop_body env obj it st = Inr (stop, st')"
  shows "x0 st' = x0 st \<and>
         (\<forall>r. r \<noteq> x0 st \<longrightarrow> heap st' r = heap st r) \<and>
         (stop \<longrightarrow> heap st' = heap st \<and> opt st' = opt st) \<and>
         ((best_x st' = best_x st \<and> min_loss st' = min_loss st \<and> best_it st' = best_it st) \<or>
          (best_x st' = x0 st \<and> best_it st' = it \<and> obj it (heap st (x0 st)) = Inr (min_loss st')))"
proof (cases "obj it (heap st (x0 st))")
  case (Inl e)
  with assms loop_body_raise [of obj it st e env] show ?thesis by simp
next
  case (Inr l)
  show ?thesis
  proof (cases "backward env it (heap st (x0 st))")
    case None
    from assms loop_body_break [where obj = obj and it = it and st = st and env = env, OF Inr None] Inr show ?thesis by (auto split: if_splits)
  next
    case (Some g)
    from assms loop_body_step [where obj = obj and it = it and st = st and env = env, OF Inr Some] Inr show ?thesis by (auto split: if_splits)
  qed
qed

lemma loop_body_alias:
  "loop_body env obj it st = Inr (stop, st') \<Longrightarrow> best_x st = x0 st \<Longrightarrow>
     best_x st' = x0 st' \<and> x0 st' = x0 st"
  using loop_body_cases [of env obj it st stop st'] by auto

lemma opt_loop_alias:
  "opt_loop env obj its st = Inr st' \<Longrightarrow> best_x st = x0 st \<Longrightarrow>
     best_x st' = x0 st' \<and> x0 st' = x0 st"
proof (induction its arbitrary: st)
  case Nil then show ?case by simp
next
  case (Cons it its)
  from Cons.prems(1) obtain stop st1 where b: "loop_body env obj it st = Inr (stop, st1)"
    and r: "(if stop then Inr st1 else opt_loop env obj its st1) = Inr st'"
    by (auto split: sum.splits)
  from loop_body_alias [OF b Cons.prems(2)] have a1: "best_x st1 = x0 st1" "x0 st1 = x0 st" by simp_all
  show ?case
  proof (cases stop)
    case True with r a1 show ?thesis by simp
  next
    case False
    with r have "opt_loop env obj its st1 = Inr st'" by simp
    from Cons.IH [OF this a1(1)] a1 show ?thesis by simp
  qed
qed

lemma opt_loop_append:
  "run_through env obj as st = Some st1 \<Longrightarrow>
     opt_loop env obj (as @ bs) st = opt_loop env obj bs st1"
proof (induction as arbitrary: st)
  case Nil then show ?case by simp
next
  case (Cons a as)
  from Cons.prems obtain st2 where b: "loop_body env obj a st = Inr (False, st2)"
    and r: "run_through env obj as st2 = Some st1"
    by (auto split: sum.splits prod.splits bool.splits if_splits)
  from Cons.IH [OF r] b show ?case by simp
qed

lemma upt_split: "k < n \<Longrightarrow> [0..<n] = [0..<k] @ k # [Suc k..<n]"
  by (metis upt_add_eq_append upt_conv_Cons le0 less_imp_add_positive add.left_neutral
      le_add1 less_or_eq_imp_le)



lemma clone_detach_contents [simp]:
  "heap (clone_detach st) (best_x (clone_detach st)) = heap st (best_x st)"
  by (simp add: clone_detach_def Let_def)

lemma estimate_solver_fields [simp]:
  "estimate_indices (estimate_solver env s ev) = select_indices (crop_event env) s ev"
  "n_parameter_dim (estimate_solver env s ev) = length (initialize_velocity env)"
  "n_patch (estimate_solver env s ev) = n_patch s"
  "patch_image_size (estimate_solver env s ev) = patch_image_size s"
  "is_poisson_model (estimate_solver env s ev) = is_poisson_model s"
  "is_angle_model (estimate_solver env s ev) = is_angle_model s"
  "n_iter (estimate_solver env s ev) = n_iter s"
  "iter_cnt (estimate_solver env s ev) = iter_cnt s"
  "crop_xmin (estimate_solver env s ev) = crop_xmin s"
  "crop_xmax (estimate_solver env s ev) = crop_xmax s"
  "crop_ymin (estimate_solver env s ev) = crop_ymin s"
  "crop_ymax (estimate_solver env s ev) = crop_ymax s"
  by (simp_all add: estimate_solver_def n_patch_def)

lemma estimate_unfold:
  "estimate env s ev =
     (if select_indices (crop_event env) s ev = [] then Inl ValueError
      else bind_err (estimate_loop env s ev) (\<lambda>st.
           bind_err (extrapolate_dense_flow_from_estimates env (estimate_solver env s ev)
                       (heap st (best_x st)))
             (\<lambda>dense_flow. Inr (dense_flow,
                (estimate_solver env s ev)\<lparr>iter_cnt := iter_cnt s + 1\<rparr>))))"
proof -
  have i: "init_loop_state env (estimate_solver env s ev) = init_loop_state env s"
    by (simp add: init_loop_state_def fun_eq_iff)
  have s2: "s\<lparr>estimate_indices := select_indices (crop_event env) s ev,
              n_parameter_dim := length (initialize_velocity env)\<rparr> = estimate_solver env s ev"
    by (simp add: estimate_solver_def)
  have o: "estimate_objective env s ev =
      (\<lambda>it x. objective_scipy env (estimate_solver env s ev) it x
         (fst (make_measured_increment env ev (estimate_roi s))) (estimate_roi s)
         (snd (make_measured_increment env ev (estimate_roi s))))"
    by (simp add: estimate_objective_def fun_eq_iff)
  show ?thesis
    unfolding estimate_def Let_def
    by (simp add: case_prod_beta s2 o i estimate_loop_def estimate_x0_def estimate_roi_def)
qed



lemma py_range_pos: "0 < n \<Longrightarrow> py_range n = 0 # [Suc 0..<nat n]"
  by (simp add: py_range_def upt_conv_Cons)

lemma estimate_x0_length:
  "length (estimate_x0 env s ev) =
     length (select_indices (crop_event env) s ev) * length (initialize_velocity env)"
  by (simp add: estimate_x0_def length_concat sum_list_replicate)

lemma init_loop_state_fields [simp]:
  "heap (init_loop_state env s v) 0 = v"
  "x0 (init_loop_state env s v) = 0"
  "best_x (init_loop_state env s v) = 0"
  "best_it (init_loop_state env s v) = 0"
  "min_loss (init_loop_state env s v) = PosInf"
  "opt (init_loop_state env s v) = new_optimizer env 0.05 (n_iter s) 0.1"
  by (simp_all add: init_loop_state_def)

text \<open>
  C9. When the backward pass raises at the very first iteration, whatever the loss was
  (a number, an infinity or NaN, recorded as the best or not), the loop ends before any
  step of the optimiser: the tensor that \<open>best_x\<close> refers to still holds the initial
  parameter vector, and \<open>estimate\<close> is the reconstruction of the dense flow from that
  vector. It returns normally whenever the block size matches the model flags and the
  grid has \<open>n_patch\<close> cells (in the Poisson model, when the Sobel filter gives two channels
  of the size of the grid).
\<close>

theorem first_iteration_failure_returns_x0:
  assumes sel: "select_indices (crop_event env) s ev \<noteq> []"
    and it: "0 < n_iter s"
    and loss: "estimate_objective env s ev 0 (estimate_x0 env s ev) = Inr l"
    and bw: "backward env 0 (estimate_x0 env s ev) = None"
  shows "(\<exists>st. estimate_loop env s ev = Inr st \<and>
              heap st (x0 st) = estimate_x0 env s ev \<and>
              heap st (best_x st) = estimate_x0 env s ev \<and>
              opt st = new_optimizer env 0.05 (n_iter s) 0.1)
       \<and> estimate env s ev =
           bind_err (extrapolate_dense_flow_from_estimates env (estimate_solver env s ev)
                       (estimate_x0 env s ev))
             (\<lambda>dense_flow. Inr (dense_flow,
                (estimate_solver env s ev)\<lparr>iter_cnt := iter_cnt s + 1\<rparr>))
       \<and> (n_patch s = fst (patch_image_size s) * snd (patch_image_size s) \<and>
          (if is_poisson_model s
           then length (initialize_velocity env) \<in> {1, 3} \<and>
                (\<forall>g. length (concat (SobelTorch env (patch_image_size s) g)) =
                      2 * (fst (patch_image_size s) * snd (patch_image_size s)))
           else if is_angle_model s then length (initialize_velocity env) \<in> {1, 3}
           else length (initialize_velocity env) \<in> {2, 4})
          \<longrightarrow> (\<exists>dense_flow. estimate env s ev =
                 Inr (dense_flow, (estimate_solver env s ev)\<lparr>iter_cnt := iter_cnt s + 1\<rparr>)))"
proof -
  let ?st0 = "init_loop_state env s (estimate_x0 env s ev)"
  let ?obj = "estimate_objective env s ev"
  have l0: "?obj 0 (heap ?st0 (x0 ?st0)) = Inr l" using loss by simp
  have b0: "backward env 0 (heap ?st0 (x0 ?st0)) = None" using bw by simp
  define st where "st = (if scalar_less l (min_loss ?st0)
      then ?st0\<lparr>grad := None, best_x := x0 ?st0, min_loss := l, best_it := 0\<rparr>
      else ?st0\<lparr>grad := None\<rparr>)"
  have body: "loop_body env ?obj 0 ?st0 = Inr (True, st)"
    unfolding st_def
    by (rule loop_body_break [where obj = ?obj and it = 0 and st = ?st0 and env = env, OF l0 b0])
  have loop: "estimate_loop env s ev = Inr st"
    by (simp add: estimate_loop_def py_range_pos [OF it] body)
  have st: "heap st (x0 st) = estimate_x0 env s ev" "heap st (best_x st) = estimate_x0 env s ev"
    "opt st = new_optimizer env 0.05 (n_iter s) 0.1"
    by (simp_all add: st_def)
  have est: "estimate env s ev =
           bind_err (extrapolate_dense_flow_from_estimates env (estimate_solver env s ev)
                       (estimate_x0 env s ev))
             (\<lambda>dense_flow. Inr (dense_flow,
                (estimate_solver env s ev)\<lparr>iter_cnt := iter_cnt s + 1\<rparr>))"
    by (simp add: estimate_unfold sel loop bind_err_simps st)
  have ret: "\<exists>dense_flow. estimate env s ev =
                 Inr (dense_flow, (estimate_solver env s ev)\<lparr>iter_cnt := iter_cnt s + 1\<rparr>)"
    if v: "n_patch s = fst (patch_image_size s) * snd (patch_image_size s) \<and>
          (if is_poisson_model s
           then length (initialize_velocity env) \<in> {1, 3} \<and>
                (\<forall>g. length (concat (SobelTorch env (patch_image_size s) g)) =
                      2 * (fst (patch_image_size s) * snd (patch_image_size s)))
           else if is_angle_model s then length (initialize_velocity env) \<in> {1, 3}
           else length (initialize_velocity env) \<in> {2, 4})"
  proof -
    let ?s = "estimate_solver env s ev"
    have inb: "\<forall>i \<in> set (estimate_indices ?s). i < n_patch ?s"
      by (simp add: select_indices_bound)
    have len: "length (estimate_x0 env s ev) = length (estimate_indices ?s) * n_parameter_dim ?s"
      by (simp add: estimate_x0_length)
    from v have grid: "n_patch ?s = fst (patch_image_size ?s) * snd (patch_image_size ?s)" by simp
    from v have dims: "if is_poisson_model ?s
                 then n_parameter_dim ?s \<in> {1, 3} \<and>
                      (\<forall>g. length (concat (SobelTorch env (patch_image_size ?s) g)) =
                            2 * (fst (patch_image_size ?s) * snd (patch_image_size ?s)))
                 else if is_angle_model ?s then n_parameter_dim ?s \<in> {1, 3}
                 else n_parameter_dim ?s \<in> {2, 4}" by (auto split: if_splits)
    from extrapolate_returns [OF dims len inb grid] obtain flow where
      "extrapolate_dense_flow_from_estimates env ?s (estimate_x0 env s ev) = Inr flow" by blast
    then show ?thesis by (simp add: est bind_err_simps)
  qed
  from loop st est ret show ?thesis by blast
qed



lemma tracks_init:
  "tracks (init_loop_state env s v) v (new_optimizer env 0.05 (n_iter s) 0.1) PosInf 0"
  by (simp add: tracks_def)

lemma tracks_step:
  assumes t: "tracks st p ostate m b"
    and l: "obj it p = Inr l" and g: "backward env it p = Some g"
  shows "\<exists>st'. loop_body env obj it st = Inr (False, st') \<and>
           tracks st' (snd (optimizer_step env ostate p g))
             (scheduler_step env (fst (optimizer_step env ostate p g)))
             (if scalar_less l m then l else m) (if scalar_less l m then it else b)"
proof -
  from t have h: "heap st (x0 st) = p" by (simp add: tracks_def)
  from l g h have l': "obj it (heap st (x0 st)) = Inr l"
    and g': "backward env it (heap st (x0 st)) = Some g" by simp_all
  show ?thesis
    unfolding loop_body_step [where obj = obj and it = it and st = st and env = env, OF l' g']
    using t by (auto simp: tracks_def)
qed

lemma tracks_break:
  assumes t: "tracks st p ostate m b"
    and l: "obj it p = Inr l" and g: "backward env it p = None"
  shows "\<exists>st'. loop_body env obj it st = Inr (True, st') \<and>
           tracks st' p ostate
             (if scalar_less l m then l else m) (if scalar_less l m then it else b)"
proof -
  from t have h: "heap st (x0 st) = p" by (simp add: tracks_def)
  from l g h have l': "obj it (heap st (x0 st)) = Inr l"
    and g': "backward env it (heap st (x0 st)) = None" by simp_all
  show ?thesis
    unfolding loop_body_break [where obj = obj and it = it and st = st and env = env, OF l' g']
    using t by (auto simp: tracks_def)
qed

lemma opt_loop_tracks_step:
  assumes t: "tracks st p ostate m b"
    and l: "obj it p = Inr l" and g: "backward env it p = Some g"
  shows "\<exists>st'. opt_loop env obj (it # its) st = opt_loop env obj its st' \<and>
           run_through env obj [it] st = Some st' \<and>
           tracks st' (snd (optimizer_step env ostate p g))
             (scheduler_step env (fst (optimizer_step env ostate p g)))
             (if scalar_less l m then l else m) (if scalar_less l m then it else b)"
proof -
  from tracks_step [where obj = obj and it = it and env = env, OF t l g] obtain st' where
    b: "loop_body env obj it st = Inr (False, st')"
    and t': "tracks st' (snd (optimizer_step env ostate p g))
             (scheduler_step env (fst (optimizer_step env ostate p g)))
             (if scalar_less l m then l else m) (if scalar_less l m then it else b)" by blast
  from b have "opt_loop env obj (it # its) st = opt_loop env obj its st'" by simp
  moreover from b have "run_through env obj [it] st = Some st'" by simp
  ultimately show ?thesis using t' by blast
qed

lemma opt_loop_tracks_break:
  assumes t: "tracks st p ostate m b"
    and l: "obj it p = Inr l" and g: "backward env it p = None"
  shows "\<exists>st'. opt_loop env obj (it # its) st = Inr st' \<and>
           tracks st' p ostate
             (if scalar_less l m then l else m) (if scalar_less l m then it else b)"
proof -
  from tracks_break [where obj = obj and it = it and env = env, OF t l g] obtain st' where
    b: "loop_body env obj it st = Inr (True, st')"
    and t': "tracks st' p ostate
             (if scalar_less l m then l else m) (if scalar_less l m then it else b)" by blast
  from b have "opt_loop env obj (it # its) st = Inr st'" by simp
  with t' show ?thesis by blast
qed

text \<open>
  C2, as the code has it. When the backward pass raises at iteration \<open>k\<close>, after the
  iterations before it have run to their end, the loop ends there and the exception does
  not leave \<open>estimate\<close>: no step of the optimiser is taken at iteration \<open>k\<close> or later, and
  \<open>estimate\<close> goes on to the reconstruction from the tensor that \<open>best_x\<close> refers to. The
  record of the best loss covers the iterations up to and including \<open>k\<close>: the loss of
  iteration \<open>k\<close> is compared before the backward pass is tried, and when it is strictly
  below \<open>min_loss\<close> as the iterations before left it, the record is iteration \<open>k\<close> itself.
\<close>

theorem backward_failure_ends_loop:
  assumes sel: "select_indices (crop_event env) s ev \<noteq> []"
    and kn: "int k < n_iter s"
    and run: "run_through env (estimate_objective env s ev) [0..<k]
                (init_loop_state env s (estimate_x0 env s ev)) = Some stk"
    and loss: "estimate_objective env s ev k (heap stk (x0 stk)) = Inr l"
    and bw: "backward env k (heap stk (x0 stk)) = None"
  shows "\<exists>st. estimate_loop env s ev = Inr st
           \<and> heap st = heap stk \<and> x0 st = x0 stk \<and> opt st = opt stk
           \<and> (if scalar_less l (min_loss stk)
              then min_loss st = l \<and> best_it st = k \<and> best_x st = x0 stk
              else min_loss st = min_loss stk \<and> best_it st = best_it stk \<and>
                   best_x st = best_x stk)
           \<and> estimate env s ev =
               bind_err (extrapolate_dense_flow_from_estimates env (estimate_solver env s ev)
                           (heap st (best_x st)))
                 (\<lambda>dense_flow. Inr (dense_flow,
                    (estimate_solver env s ev)\<lparr>iter_cnt := iter_cnt s + 1\<rparr>))"
proof -
  let ?obj = "estimate_objective env s ev"
  define st where "st = (if scalar_less l (min_loss stk)
      then stk\<lparr>grad := None, best_x := x0 stk, min_loss := l, best_it := k\<rparr>
      else stk\<lparr>grad := None\<rparr>)"
  have body: "loop_body env ?obj k stk = Inr (True, st)"
    unfolding st_def
    by (rule loop_body_break [where obj = ?obj and it = k and st = stk and env = env, OF loss bw])
  from kn have "k < nat (n_iter s)" by simp
  from upt_split [OF this]
  have r: "py_range (n_iter s) = [0..<k] @ k # [Suc k..<nat (n_iter s)]"
    by (simp add: py_range_def)
  have loop: "estimate_loop env s ev = Inr st"
    unfolding estimate_loop_def r opt_loop_append [OF run] by (simp add: body)
  have f: "heap st = heap stk" "x0 st = x0 stk" "opt st = opt stk"
    by (simp_all add: st_def)
  have rec: "if scalar_less l (min_loss stk)
              then min_loss st = l \<and> best_it st = k \<and> best_x st = x0 stk
              else min_loss st = min_loss stk \<and> best_it st = best_it stk \<and>
                   best_x st = best_x stk"
    by (simp add: st_def)
  have est: "estimate env s ev =
               bind_err (extrapolate_dense_flow_from_estimates env (estimate_solver env s ev)
                           (heap st (best_x st)))
                 (\<lambda>dense_flow. Inr (dense_flow,
                    (estimate_solver env s ev)\<lparr>iter_cnt := iter_cnt s + 1\<rparr>))"
    by (simp add: estimate_unfold sel loop bind_err_simps)
  from loop f rec est show ?thesis by blast
qed


subsection \<open>The sample runs\<close>


lemma demo_family_selection:
  assumes "crop_event env = box_crop" "initialize_velocity env = [1, 0]"
  shows "select_indices (crop_event env) demo_solver demo_events = [1]"
    and "estimate_x0 env demo_solver demo_events = [1, 0]"
  using assms by (simp_all add: demo_select estimate_x0_def)

lemma demo_family_reconstruct:
  assumes c: "crop_event env = box_crop" and v: "initialize_velocity env = [1, 0]"
    and i: "interpolate_dense_flow_from_patch_tensor env = (\<lambda>hw t. map (\<lambda>c. [c]) t)"
  shows "extrapolate_dense_flow_from_estimates env (estimate_solver env demo_solver demo_events)
           [a, b] = Inr [[[0, a, 0]], [[0, b, 0]]]"
proof -
  let ?s = "estimate_solver env demo_solver demo_events"
  have f: "\<not> is_poisson_model ?s" "\<not> is_angle_model ?s" "n_parameter_dim ?s = 2"
    "n_patch ?s = 3" "estimate_indices ?s = [1]" "patch_image_size ?s = (1, 3)"
  proof -
    have d: "\<not> is_poisson_model demo_solver" "\<not> is_angle_model demo_solver"
      "n_patch demo_solver = 3" "patch_image_size demo_solver = (1, 3)"
      by (simp_all add: demo_solver_def n_patch_def)
    show "\<not> is_poisson_model ?s" "\<not> is_angle_model ?s" "n_parameter_dim ?s = 2"
      "n_patch ?s = 3" "estimate_indices ?s = [1]" "patch_image_size ?s = (1, 3)"
      using c v d by (simp_all add: demo_select)
  qed
  have u2: "[0..<2] = [0, Suc 0]" by (simp add: upt_rec [of 0] numeral_eq_Suc)
  have r: "reshape_T 2 [a, b] = Inr [[a], [b]]"
    by (simp add: reshape_T_def u2)
  have b: "index_add (replicate 3 0) [Suc 0] [x] = Inr [0, x, 0]" for x
    by (simp add: index_add_def broadcast_to_def numeral_3_eq_3)
  have g: "reshape_grid 2 (Suc 0, 3) [[0, a, 0], [0, b, 0]] = Inr [[0, a, 0], [0, b, 0]]"
    using reshape_grid_rows [of "[[0, a, 0], [0, b, 0]]" 2 3 "(Suc 0, 3)"] by simp
  have p: "get_patch_flow env ?s [a, b] = Inr [[0, a, 0], [0, b, 0]]"
    by (simp add: get_patch_flow_def bind_err_def assert_that_def f r b g
        del: estimate_solver_fields)
  show ?thesis
    by (simp add: extrapolate_dense_flow_from_estimates_def p bind_err_def f g i
        del: estimate_solver_fields)
qed



lemma sgd_family:
  assumes "optimizer_step env = (\<lambda>lr p g. (lr, map2 (\<lambda>a d. a - lr * d) p g))"
    and "scheduler_step env = (\<lambda>lr. lr)"
  shows "snd (optimizer_step env lr [a, b] [c, d]) = [a - lr * c, b - lr * d]"
    and "scheduler_step env (fst (optimizer_step env lr [a, b] [c, d])) = lr"
  using assms by simp_all

lemma demo_env_fields:
  "crop_event demo_env = box_crop" "initialize_velocity demo_env = [1, 0]"
  "interpolate_dense_flow_from_patch_tensor demo_env = (\<lambda>hw t. map (\<lambda>c. [c]) t)"
  "optimizer_step demo_env = (\<lambda>lr p g. (lr, map2 (\<lambda>a d. a - lr * d) p g))"
  "scheduler_step demo_env = (\<lambda>lr. lr)"
  "new_optimizer demo_env = (\<lambda>lr lr_step lr_decay. lr)"
  "backward demo_env it [a, b] = Some [60 * a, 0]"
  "estimate_objective demo_env s ev it [a, b] = Inr (Fin (30 * a * a))"
  by (simp_all add: demo_env_def estimate_objective_def)

lemma failing_env_fields:
  "crop_event failing_env = box_crop" "initialize_velocity failing_env = [1, 0]"
  "interpolate_dense_flow_from_patch_tensor failing_env = (\<lambda>hw t. map (\<lambda>c. [c]) t)"
  "optimizer_step failing_env = (\<lambda>lr p g. (lr, map2 (\<lambda>a d. a - lr * d) p g))"
  "scheduler_step failing_env = (\<lambda>lr. lr)"
  "new_optimizer failing_env = (\<lambda>lr lr_step lr_decay. lr)"
  "backward failing_env it [a, b] = (if it = 1 then None else Some [20 * a, 0])"
  "estimate_objective failing_env s ev it [a, b] = Inr (Fin (10 * a * a))"
  by (simp_all add: failing_env_def demo_env_def estimate_objective_def)

lemma nan_env_fields:
  "crop_event nan_env = box_crop" "initialize_velocity nan_env = [1, 0]"
  "interpolate_dense_flow_from_patch_tensor nan_env = (\<lambda>hw t. map (\<lambda>c. [c]) t)"
  "backward nan_env it p = None"
  "estimate_objective nan_env s ev it p = Inr NaN"
  by (simp_all add: nan_env_def demo_env_def estimate_objective_def)

lemma demo_range: "py_range (n_iter demo_solver) = [0, 1, 2]"
  by code_simp

text \<open>The run of the diverging descent: three turns, none of which leaves the loop.\<close>

lemma demo_run:
  "\<exists>st. estimate_loop demo_env demo_solver demo_events = Inr st \<and>
        tracks st [- 8, 0] 0.05 (Fin 30) 0"
proof -
  let ?obj = "estimate_objective demo_env demo_solver demo_events"
  let ?st0 = "init_loop_state demo_env demo_solver [1, 0]"
  have t0: "tracks ?st0 [1, 0] 0.05 PosInf 0"
    using tracks_init [of demo_env demo_solver "[1, 0]"] by (simp add: demo_env_fields)
  from opt_loop_tracks_step [where obj = ?obj and it = 0 and env = demo_env
      and its = "[1, 2]", OF t0 demo_env_fields(8) demo_env_fields(7)]
  obtain st1 where e1: "opt_loop demo_env ?obj [0, 1, 2] ?st0 = opt_loop demo_env ?obj [1, 2] st1"
    and t1: "tracks st1 [- 2, 0] 0.05 (Fin 30) 0"
    by (auto simp: sgd_family [OF demo_env_fields(4,5)])
  from opt_loop_tracks_step [where obj = ?obj and it = 1 and env = demo_env
      and its = "[2]", OF t1 demo_env_fields(8) demo_env_fields(7)]
  obtain st2 where e2: "opt_loop demo_env ?obj [1, 2] st1 = opt_loop demo_env ?obj [2] st2"
    and t2: "tracks st2 [4, 0] 0.05 (Fin 30) 0"
    by (auto simp: sgd_family [OF demo_env_fields(4,5)])
  from opt_loop_tracks_step [where obj = ?obj and it = 2 and env = demo_env
      and its = "[]", OF t2 demo_env_fields(8) demo_env_fields(7)]
  obtain st3 where e3: "opt_loop demo_env ?obj [2] st2 = opt_loop demo_env ?obj [] st3"
    and t3: "tracks st3 [- 8, 0] 0.05 (Fin 30) 0"
    by (auto simp: sgd_family [OF demo_env_fields(4,5)])
  have "estimate_loop demo_env demo_solver demo_events =
        opt_loop demo_env ?obj [0, 1, 2] ?st0"
    by (simp add: estimate_loop_def demo_range
        demo_family_selection(2) [OF demo_env_fields(1,2)] del: opt_loop.simps)
  also note e1 also note e2 also note e3
  also have "opt_loop demo_env ?obj [] st3 = Inr st3" by simp
  finally show ?thesis using t3 by blast
qed



lemma estimate_loop_alias:
  "estimate_loop env s ev = Inr st \<Longrightarrow> best_x st = x0 st \<and> x0 st = 0"
  using opt_loop_alias [of env "estimate_objective env s ev" "py_range (n_iter s)"
      "init_loop_state env s (estimate_x0 env s ev)" st]
  by (simp add: estimate_loop_def)

lemma demo_iter_cnt: "iter_cnt demo_solver = 0"
  by (simp add: demo_solver_def)

text \<open>
  C1 fails on the code. \<open>best_x = x0\<close> binds \<open>best_x\<close> to the tensor of \<open>x0\<close>, which
  every later step of the optimiser overwrites, so \<open>best_x\<close> holds the last contents of
  \<open>x0\<close> and never the iterate of the best loss. On the diverging descent (loss
  \<open>30 * vx\<^sup>2\<close>, learning rate 0.05, three iterations from \<open>vx = 1\<close>) the best loss 30 is
  recorded at iteration 0 for the iterate \<open>(1, 0)\<close>, and the flow is reconstructed from
  \<open>(-8, 0)\<close>, the contents after the third step, whose loss is 1920.
\<close>

theorem best_loss_iterate_not_returned:
  "estimate_x0 demo_env demo_solver demo_events = [1, 0]
   \<and> estimate_objective demo_env demo_solver demo_events 0 [1, 0] = Inr (Fin 30)
   \<and> (\<exists>st. estimate_loop demo_env demo_solver demo_events = Inr st \<and>
            best_it st = 0 \<and> min_loss st = Fin 30 \<and> heap st (best_x st) = [- 8, 0])
   \<and> estimate_objective demo_env demo_solver demo_events 3 [- 8, 0] = Inr (Fin 1920)
   \<and> estimate demo_env demo_solver demo_events =
       Inr ([[[0, - 8, 0]], [[0, 0, 0]]],
            (estimate_solver demo_env demo_solver demo_events)\<lparr>iter_cnt := 1\<rparr>)
   \<and> extrapolate_dense_flow_from_estimates demo_env
         (estimate_solver demo_env demo_solver demo_events) [1, 0] =
       Inr [[[0, 1, 0]], [[0, 0, 0]]]"
proof -
  note sel = demo_family_selection [OF demo_env_fields(1,2)]
  note rec = demo_family_reconstruct [OF demo_env_fields(1,2,3)]
  from demo_run obtain st where loop: "estimate_loop demo_env demo_solver demo_events = Inr st"
    and t: "tracks st [- 8, 0] 0.05 (Fin 30) 0" by blast
  from t have f: "best_it st = 0" "min_loss st = Fin 30" "heap st (best_x st) = [- 8, 0]"
    by (simp_all add: tracks_def)
  have est: "estimate demo_env demo_solver demo_events =
       Inr ([[[0, - 8, 0]], [[0, 0, 0]]],
            (estimate_solver demo_env demo_solver demo_events)\<lparr>iter_cnt := 1\<rparr>)"
    by (simp add: estimate_unfold sel loop bind_err_simps f rec demo_iter_cnt
        del: estimate_solver_fields)
  have l0: "estimate_objective demo_env demo_solver demo_events 0 [1, 0] = Inr (Fin 30)"
    and l3: "estimate_objective demo_env demo_solver demo_events 3 [- 8, 0] = Inr (Fin 1920)"
    by (simp_all add: demo_env_fields)
  from sel(2) l0 loop f l3 est rec [of 1 0] show ?thesis by blast
qed

text \<open>
  The instance of a loss that is NaN at iteration 0 with a backward pass that raises:
  nothing is recorded, and the flow is reconstructed from the initial vector \<open>(1, 0)\<close>.
\<close>

theorem first_iteration_failure_returns_x0_witness:
  "select_indices (crop_event nan_env) demo_solver demo_events \<noteq> [] \<and>
   0 < n_iter demo_solver \<and>
   estimate_objective nan_env demo_solver demo_events 0
     (estimate_x0 nan_env demo_solver demo_events) = Inr NaN \<and>
   backward nan_env 0 (estimate_x0 nan_env demo_solver demo_events) = None \<and>
   estimate_x0 nan_env demo_solver demo_events = [1, 0] \<and>
   estimate nan_env demo_solver demo_events =
     Inr ([[[0, 1, 0]], [[0, 0, 0]]],
          (estimate_solver nan_env demo_solver demo_events)\<lparr>iter_cnt := 1\<rparr>)"
proof -
  note sel = demo_family_selection [OF nan_env_fields(1,2)]
  note rec = demo_family_reconstruct [OF nan_env_fields(1,2,3)]
  have s: "select_indices (crop_event nan_env) demo_solver demo_events \<noteq> []"
    by (simp add: sel)
  have n: "0 < n_iter demo_solver" by (simp add: demo_solver_def)
  have l: "estimate_objective nan_env demo_solver demo_events 0
     (estimate_x0 nan_env demo_solver demo_events) = Inr NaN"
    by (rule nan_env_fields)
  have b: "backward nan_env 0 (estimate_x0 nan_env demo_solver demo_events) = None"
    by (rule nan_env_fields)
  from first_iteration_failure_returns_x0 [OF s n l b]
  have "estimate nan_env demo_solver demo_events =
     Inr ([[[0, 1, 0]], [[0, 0, 0]]],
          (estimate_solver nan_env demo_solver demo_events)\<lparr>iter_cnt := 1\<rparr>)"
    by (simp add: sel rec bind_err_simps demo_iter_cnt del: estimate_solver_fields)
  with s n l b sel(2) show ?thesis by blast
qed




lemma failing_run:
  "\<exists>st1 st. run_through failing_env (estimate_objective failing_env demo_solver demo_events)
               [0..<1] (init_loop_state failing_env demo_solver
                  (estimate_x0 failing_env demo_solver demo_events)) = Some st1 \<and>
        tracks st1 [0, 0] 0.05 (Fin 10) 0 \<and>
        estimate_loop failing_env demo_solver demo_events = Inr st \<and>
        tracks st [0, 0] 0.05 (Fin 0) 1"
proof -
  let ?obj = "estimate_objective failing_env demo_solver demo_events"
  let ?st0 = "init_loop_state failing_env demo_solver [1, 0]"
  note x0v = demo_family_selection(2) [OF failing_env_fields(1,2)]
  have t0: "tracks ?st0 [1, 0] 0.05 PosInf 0"
    using tracks_init [of failing_env demo_solver "[1, 0]"] by (simp add: failing_env_fields)
  have b0: "backward failing_env 0 [1, 0] = Some [20 * 1, 0]"
    by (simp add: failing_env_fields)
  from opt_loop_tracks_step [where obj = ?obj and it = 0 and env = failing_env
      and its = "[1, 2]", OF t0 failing_env_fields(8) b0]
  obtain st1 where e1: "opt_loop failing_env ?obj [0, 1, 2] ?st0 =
        opt_loop failing_env ?obj [1, 2] st1"
    and r1: "run_through failing_env ?obj [0] ?st0 = Some st1"
    and t1: "tracks st1 [0, 0] 0.05 (Fin 10) 0"
    by (auto simp: sgd_family [OF failing_env_fields(4,5)])
  have b1: "backward failing_env 1 [0, 0] = None"
    by (simp add: failing_env_fields)
  from opt_loop_tracks_break [where obj = ?obj and it = 1 and env = failing_env
      and its = "[2]", OF t1 failing_env_fields(8) b1]
  obtain st where e2: "opt_loop failing_env ?obj [1, 2] st1 = Inr st"
    and t2: "tracks st [0, 0] 0.05 (Fin 0) 1"
    by auto
  have "estimate_loop failing_env demo_solver demo_events =
        opt_loop failing_env ?obj [0, 1, 2] ?st0"
    by (simp add: estimate_loop_def demo_range x0v del: opt_loop.simps)
  also note e1 also note e2
  finally have loop: "estimate_loop failing_env demo_solver demo_events = Inr st" .
  have "[0..<1] = [0::nat]" by simp
  with r1 x0v have "run_through failing_env ?obj [0..<1]
      (init_loop_state failing_env demo_solver
         (estimate_x0 failing_env demo_solver demo_events)) = Some st1"
    by (simp del: run_through.simps upt_Suc)
  with t1 loop t2 show ?thesis by blast
qed

text \<open>
  C2 as stated fails. On the descent that reaches the minimum in one step, with a backward
  pass that raises at iteration 1: iteration 0 records the initial vector \<open>(1, 0)\<close> with
  the loss 10, iteration 1 computes the loss 0 of \<open>(0, 0)\<close> and records it before the
  backward pass raises, and \<open>estimate\<close> returns the flow reconstructed from \<open>(0, 0)\<close>, the
  iterate of iteration 1, not from a vector recorded before iteration 1.
\<close>

theorem failure_at_k_returns_iterate_k:
  "backward failing_env 1 [0, 0] = None
   \<and> estimate_x0 failing_env demo_solver demo_events = [1, 0]
   \<and> estimate_objective failing_env demo_solver demo_events 0 [1, 0] = Inr (Fin 10)
   \<and> (\<exists>st. estimate_loop failing_env demo_solver demo_events = Inr st \<and>
            best_it st = 1 \<and> min_loss st = Fin 0 \<and> heap st (best_x st) = [0, 0])
   \<and> estimate failing_env demo_solver demo_events =
       Inr ([[[0, 0, 0]], [[0, 0, 0]]],
            (estimate_solver failing_env demo_solver demo_events)\<lparr>iter_cnt := 1\<rparr>)
   \<and> extrapolate_dense_flow_from_estimates failing_env
         (estimate_solver failing_env demo_solver demo_events) [1, 0] =
       Inr [[[0, 1, 0]], [[0, 0, 0]]]"
proof -
  note sel = demo_family_selection [OF failing_env_fields(1,2)]
  note rec = demo_family_reconstruct [OF failing_env_fields(1,2,3)]
  from failing_run obtain st where loop: "estimate_loop failing_env demo_solver demo_events = Inr st"
    and t: "tracks st [0, 0] 0.05 (Fin 0) 1" by blast
  from t have f: "best_it st = 1" "min_loss st = Fin 0" "heap st (best_x st) = [0, 0]"
    by (simp_all add: tracks_def)
  have est: "estimate failing_env demo_solver demo_events =
       Inr ([[[0, 0, 0]], [[0, 0, 0]]],
            (estimate_solver failing_env demo_solver demo_events)\<lparr>iter_cnt := 1\<rparr>)"
    by (simp add: estimate_unfold sel loop bind_err_simps f rec demo_iter_cnt
        del: estimate_solver_fields)
  have b1: "backward failing_env 1 [0, 0] = None"
    by (simp add: failing_env_fields)
  have l0: "estimate_objective failing_env demo_solver demo_events 0 [1, 0] = Inr (Fin 10)"
    by (simp add: failing_env_fields)
  from b1 sel(2) l0 loop f est rec [of 1 0] show ?thesis by blast
qed

text \<open>
  The same run as an instance of the statement above, with \<open>k = 1\<close>: iteration 0 runs to
  its end and leaves the minimum 10, the loss 0 of iteration 1 is recorded, and the loop
  ends with the contents that iteration 1 started from.
\<close>

theorem backward_failure_ends_loop_witness:
  "\<exists>stk st. select_indices (crop_event failing_env) demo_solver demo_events \<noteq> [] \<and>
     int 1 < n_iter demo_solver \<and>
     run_through failing_env (estimate_objective failing_env demo_solver demo_events)
       [0..<1] (init_loop_state failing_env demo_solver
          (estimate_x0 failing_env demo_solver demo_events)) = Some stk \<and>
     estimate_objective failing_env demo_solver demo_events 1 (heap stk (x0 stk)) = Inr (Fin 0) \<and>
     backward failing_env 1 (heap stk (x0 stk)) = None \<and>
     min_loss stk = Fin 10 \<and>
     estimate_loop failing_env demo_solver demo_events = Inr st \<and>
     heap st (x0 st) = heap stk (x0 stk) \<and> min_loss st = Fin 0 \<and> best_it st = 1"
proof -
  note sel = demo_family_selection [OF failing_env_fields(1,2)]
  from failing_run obtain stk where
    run: "run_through failing_env (estimate_objective failing_env demo_solver demo_events)
       [0..<1] (init_loop_state failing_env demo_solver
          (estimate_x0 failing_env demo_solver demo_events)) = Some stk"
    and t: "tracks stk [0, 0] 0.05 (Fin 10) 0" by blast
  from t have h: "heap stk (x0 stk) = [0, 0]" and m: "min_loss stk = Fin 10"
    by (simp_all add: tracks_def)
  have s: "select_indices (crop_event failing_env) demo_solver demo_events \<noteq> []"
    by (simp add: sel)
  have n: "int 1 < n_iter demo_solver" by (simp add: demo_solver_def)
  have l: "estimate_objective failing_env demo_solver demo_events 1 (heap stk (x0 stk)) =
             Inr (Fin 0)"
    by (simp add: h failing_env_fields)
  have b: "backward failing_env 1 (heap stk (x0 stk)) = None"
    by (simp add: h failing_env_fields)
  from backward_failure_ends_loop [OF s n run l b] m
  obtain st where "estimate_loop failing_env demo_solver demo_events = Inr st"
    "heap st (x0 st) = heap stk (x0 stk)" "min_loss st = Fin 0" "best_it st = 1"
    by auto
  with s n run l b m show ?thesis by blast
qed


end
